theory Spec2Isabelle
  imports Main "HOL-Library.Word" "HOL-Library.Sublist"
begin

unbundle bit_operations_syntax

section \<open>OPAL utilities (lib/luks2/hw_opal/hw_opal.c)\<close>

text \<open>
  A shallow embedding of \<^verbatim>\<open>hw_opal.c\<close> (the \<^verbatim>\<open>HAVE_HW_OPAL\<close> branch). The kernel and
  the drive are outside the program: every control call is answered by an environment
  that sees the calls issued so far. The program state records the control calls, the
  log, the zero-on-release buffer pool and what returned functions left in automatic
  storage.
\<close>

subsection \<open>Constants\<close>

type_synonym u8 = "8 word"
type_synonym u32 = "32 word"
type_synonym u64 = "64 word"

text \<open>errno values of Linux (\<^verbatim>\<open>errno.h\<close>).\<close>

definition EPERM :: int where "EPERM = 1"
definition EIO :: int where "EIO = 5"
definition ENOMEM :: int where "ENOMEM = 12"
definition EINVAL :: int where "EINVAL = 22"
definition ENOTSUP :: int where "ENOTSUP = 95"

text \<open>
  Modelled from the spec: the constants and parameter blocks of \<^verbatim>\<open>linux/sed-opal.h\<close> and
  \<^verbatim>\<open>SECTOR_SIZE\<close> of \<^verbatim>\<open>internal.h\<close> are not part of the repository's sources. The key
  length has a fixed maximum, a sector has 512 bytes, the lock state is one of
  read-only, read-write and locked, and the status flags are independent bits. The
  values are those of the kernel header.
\<close>

definition OPAL_KEY_MAX :: nat where "OPAL_KEY_MAX = 256"
definition SECTOR_SIZE :: u64 where "SECTOR_SIZE = 512"

definition OPAL_RO :: u32 where "OPAL_RO = 1"
definition OPAL_RW :: u32 where "OPAL_RW = 2"
definition OPAL_LK :: u32 where "OPAL_LK = 4"

definition OPAL_ADMIN1 :: u32 where "OPAL_ADMIN1 = 0"
definition OPAL_SAVE_FOR_LOCK :: nat where "OPAL_SAVE_FOR_LOCK = 1"

definition OPAL_FL_SUPPORTED :: u32 where "OPAL_FL_SUPPORTED = 1"
definition OPAL_FL_LOCKING_SUPPORTED :: u32 where "OPAL_FL_LOCKING_SUPPORTED = 2"
definition OPAL_FL_LOCKING_ENABLED :: u32 where "OPAL_FL_LOCKING_ENABLED = 4"

text \<open>\<^verbatim>\<open>enum OpalStatus\<close>: the values the code compares a result with.\<close>

definition OPAL_STATUS_SUCCESS :: int where "OPAL_STATUS_SUCCESS = 0"
definition OPAL_STATUS_NOT_AUTHORIZED :: int where "OPAL_STATUS_NOT_AUTHORIZED = 1"
definition OPAL_STATUS_AUTHORITY_LOCKED_OUT :: int where "OPAL_STATUS_AUTHORITY_LOCKED_OUT = 17"
definition OPAL_STATUS_FAIL :: int where "OPAL_STATUS_FAIL = 0x3F"
definition OPAL_STATUS_MAX :: int where "OPAL_STATUS_MAX = 0x40"

subsection \<open>Parameter blocks\<close>

text \<open>
  Modelled from the spec: the fixed-layout parameter blocks, with the fields the code
  assigns or reads. A key buffer is the list of the bytes copied into it.
\<close>

type_synonym volume_key = "u8 list"

record opal_key =
  lr :: u32
  key_len :: nat
  key :: "u8 list"

record opal_session_info =
  who :: u32
  opal_key :: opal_key

record opal_lr_act =
  act_key :: opal_key
  num_lrs :: nat
  act_lr :: "nat list"

record opal_lock_unlock =
  lk_session :: opal_session_info
  l_state :: u32
  lk_flags :: nat

record opal_new_pw =
  pw_session :: opal_session_info
  new_user_pw :: opal_session_info

record opal_user_lr_setup =
  su_range_start :: u64
  su_range_length :: u64
  su_RLE :: u32
  su_WLE :: u32
  su_session :: opal_session_info

record opal_lr_status =
  lrs_session :: opal_session_info
  lrs_range_start :: u64
  lrs_range_length :: u64
  lrs_RLE :: u32
  lrs_WLE :: u32
  lrs_l_state :: u32

record opal_status =
  st_flags :: u32

record opal_geometry =
  geo_align :: u8
  logical_block_size :: u32
  alignment_granularity :: u64
  lowest_aligned_lba :: u64

datatype param =
    P_key opal_key
  | P_lr_act opal_lr_act
  | P_session opal_session_info
  | P_lock_unlock opal_lock_unlock
  | P_new_pw opal_new_pw
  | P_lr_setup opal_user_lr_setup
  | P_lr_status opal_lr_status
  | P_status opal_status
  | P_geometry

datatype ioc =
    IOC_OPAL_SAVE
  | IOC_OPAL_LOCK_UNLOCK
  | IOC_OPAL_TAKE_OWNERSHIP
  | IOC_OPAL_ACTIVATE_LSP
  | IOC_OPAL_SET_PW
  | IOC_OPAL_ACTIVATE_USR
  | IOC_OPAL_LR_SETUP
  | IOC_OPAL_ADD_USR_TO_LR
  | IOC_OPAL_ERASE_LR
  | IOC_OPAL_SECURE_ERASE_LR
  | IOC_OPAL_PSID_REVERT_TPR
  | IOC_OPAL_GET_STATUS
  | IOC_OPAL_GET_LR_STATUS
  | IOC_OPAL_GET_GEOMETRY

type_synonym call = "ioc \<times> param"

subsection \<open>Log\<close>

text \<open>
  One constructor for each message of the file, with the arguments it prints (the
  device name apart). A status text is what \<^verbatim>\<open>opal_status_to_string\<close> returned, a null
  pointer being \<open>None\<close>.
\<close>

datatype log_level = LOG_DBG | LOG_ERR | LOG_STD

datatype log_msg =
    Msg_get_lr_status_failed
  | Msg_offset_mismatch u32 u64 u64
  | Msg_length_mismatch u32 u64 u64
  | Msg_locking_disabled u32
  | Msg_read_lock_is u32 bool
  | Msg_write_lock_is u32 bool
  | Msg_unexpected_lock_state u32
  | Msg_kernel_unsupported
  | Msg_take_ownership_denied
  | Msg_take_ownership_failed "string option"
  | Msg_activate_failed "string option"
  | Msg_erase_failed u32 "string option"
  | Msg_secure_erase_failed u32 "string option"
  | Msg_activate_user_failed "string option"
  | Msg_add_user_ro_failed u32 "string option"
  | Msg_add_user_rw_failed u32 "string option"
  | Msg_user_key_length nat
  | Msg_set_pw_failed int "string option"
  | Msg_lr_setup_failed u64 u64 "string option"
  | Msg_lock_failed "string option"
  | Msg_lock_unlock_denied bool
  | Msg_lock_unlock_failed bool "string option"
  | Msg_save_failed "string option"
  | Msg_psid_denied
  | Msg_psid_failed "string option"
  | Msg_disable_range_failed "string option"

type_synonym log_entry = "log_level \<times> log_msg"

subsection \<open>Program state and environment\<close>

datatype cell = Fresh | Live param | Released

record sys =
  calls :: "call list"
  logs :: "log_entry list"
  pool :: "cell list"
  stack :: "param list"

text \<open>
  The environment: \<open>k_open\<close> is the descriptor \<^verbatim>\<open>device_open\<close> returns, \<open>k_alloc\<close>
  tells whether \<^verbatim>\<open>crypt_safe_alloc\<close> serves a request when the pool has that many cells,
  \<open>k_ioctl\<close> is the value \<^verbatim>\<open>ioctl\<close> returns, and \<open>k_status\<close>, \<open>k_geometry\<close> and
  \<open>k_lr_status\<close> are what the three queries leave in the caller's block. Each answer
  depends on the calls issued before.
\<close>

record env =
  k_open :: "call list \<Rightarrow> int"
  k_alloc :: "nat \<Rightarrow> bool"
  k_strerror :: "int \<Rightarrow> string"
  k_ioctl :: "call list \<Rightarrow> call \<Rightarrow> int"
  k_status :: "call list \<Rightarrow> opal_status"
  k_geometry :: "call list \<Rightarrow> opal_geometry"
  k_lr_status :: "call list \<Rightarrow> opal_lr_status \<Rightarrow> opal_lr_status"

text \<open>
  Modelled from the spec: \<^verbatim>\<open>device_open\<close>, the secure allocator (\<^verbatim>\<open>crypt_safe_alloc\<close>,
  \<^verbatim>\<open>crypt_safe_free\<close>, \<^verbatim>\<open>crypt_safe_memzero\<close>) and the log functions are collaborators
  whose code is outside these sources. Opening gives a handle or fails; a buffer comes
  from a zero-on-release pool, or the allocation fails; releasing a buffer zeroes it and
  gives it back, and releasing the null pointer does nothing; a control call is recorded
  with the block as it is when the call is made. \<open>leave\<close> records what a function that
  returns leaves behind in a block of its automatic storage.
\<close>

definition device_open :: "env \<Rightarrow> sys \<Rightarrow> int" where
  "device_open e s = k_open e (calls s)"

definition ioctl :: "env \<Rightarrow> ioc \<Rightarrow> param \<Rightarrow> sys \<Rightarrow> int \<times> sys" where
  "ioctl e c p s = (k_ioctl e (calls s) (c, p), s\<lparr>calls := calls s @ [(c, p)]\<rparr>)"

definition crypt_safe_alloc :: "env \<Rightarrow> sys \<Rightarrow> nat option \<times> sys" where
  "crypt_safe_alloc e s =
     (if k_alloc e (length (pool s))
      then (Some (length (pool s)), s\<lparr>pool := pool s @ [Fresh]\<rparr>)
      else (None, s))"

definition assign :: "nat \<Rightarrow> param \<Rightarrow> sys \<Rightarrow> sys" where
  "assign a p s = s\<lparr>pool := (pool s)[a := Live p]\<rparr>"

definition crypt_safe_free :: "nat option \<Rightarrow> sys \<Rightarrow> sys" where
  "crypt_safe_free p s =
     (case p of None \<Rightarrow> s | Some a \<Rightarrow> s\<lparr>pool := (pool s)[a := Released]\<rparr>)"

definition crypt_safe_memzero :: "u8 list \<Rightarrow> nat \<Rightarrow> u8 list" where
  "crypt_safe_memzero buf n = replicate (min n (length buf)) 0 @ drop n buf"

definition log_dbg :: "log_msg \<Rightarrow> sys \<Rightarrow> sys" where
  "log_dbg m s = s\<lparr>logs := logs s @ [(LOG_DBG, m)]\<rparr>"

definition log_err :: "log_msg \<Rightarrow> sys \<Rightarrow> sys" where
  "log_err m s = s\<lparr>logs := logs s @ [(LOG_ERR, m)]\<rparr>"

definition log_std :: "log_msg \<Rightarrow> sys \<Rightarrow> sys" where
  "log_std m s = s\<lparr>logs := logs s @ [(LOG_STD, m)]\<rparr>"

definition leave :: "param \<Rightarrow> sys \<Rightarrow> sys" where
  "leave p s = s\<lparr>stack := stack s @ [p]\<rparr>"

subsection \<open>Status translator\<close>

text \<open>
  \<^verbatim>\<open>opal_status_table[_OPAL_STATUS_MAX]\<close>: the designated initialisers fill the entries
  0 to 17 and 0x3F; the entries between are null pointers.
\<close>

definition opal_status_table :: "string option list" where
  "opal_status_table =
     [Some ''success'', Some ''not authorized'', Some ''obsolete'', Some ''SP busy'',
      Some ''SP failed'', Some ''SP disabled'', Some ''SP frozen'',
      Some ''no sessions available'', Some ''uniqueness conflict'',
      Some ''insufficient space'', Some ''insufficient rows'', Some ''invalid parameter'',
      Some ''obsolete'', Some ''obsolete'', Some ''TPer malfunction'',
      Some ''transaction failure'', Some ''response overflow'',
      Some ''authority locked out'']
     @ replicate 45 None
     @ [Some ''unknown failure'']"

definition opal_status_to_string :: "env \<Rightarrow> int \<Rightarrow> string option" where
  "opal_status_to_string e t =
     (if t < 0 then Some (k_strerror e (- t))
      else if t \<ge> OPAL_STATUS_MAX then Some ''unknown error''
      else opal_status_table ! nat t)"

subsection \<open>Capability and geometry queries\<close>

definition opal_geometry_fd :: "env \<Rightarrow> sys \<Rightarrow> int \<times> (bool \<times> u32 \<times> u64 \<times> u64) option \<times> sys" where
  "opal_geometry_fd e s =
     (let geo = k_geometry e (calls s);
          (r, s1) = ioctl e IOC_OPAL_GET_GEOMETRY P_geometry s
      in if r \<noteq> OPAL_STATUS_SUCCESS then (r, None, s1)
         else (r, Some (geo_align geo = 1, logical_block_size geo,
                        alignment_granularity geo, lowest_aligned_lba geo), s1))"

definition opal_query_status :: "env \<Rightarrow> u32 \<Rightarrow> sys \<Rightarrow> int \<times> sys" where
  "opal_query_status e expected s =
     (let fd = device_open e s
      in if fd < 0 then (- EIO, s)
         else
           let st = k_status e (calls s);
               (r, s1) = ioctl e IOC_OPAL_GET_STATUS (P_status \<lparr>st_flags = 0\<rparr>) s
           in (if r < 0 then - EINVAL else if st_flags st AND expected \<noteq> 0 then 1 else 0, s1))"

definition opal_supported :: "env \<Rightarrow> sys \<Rightarrow> int \<times> sys" where
  "opal_supported e s = opal_query_status e (OPAL_FL_SUPPORTED OR OPAL_FL_LOCKING_SUPPORTED) s"

definition opal_enabled :: "env \<Rightarrow> sys \<Rightarrow> int \<times> sys" where
  "opal_enabled e s = opal_query_status e OPAL_FL_LOCKING_ENABLED s"

definition opal_geometry :: "env \<Rightarrow> sys \<Rightarrow> int \<times> (bool \<times> u32 \<times> u64 \<times> u64) option \<times> sys" where
  "opal_geometry e s =
     (let fd = device_open e s
      in if fd < 0 then (- EIO, None, s) else opal_geometry_fd e s)"

subsection \<open>Range attribute verifier\<close>

text \<open>\<^verbatim>\<open>check && (value != *check)\<close>: an expectation that was passed and differs.\<close>

definition differs :: "'a option \<Rightarrow> 'a \<Rightarrow> bool" where
  "differs check v = (case check of None \<Rightarrow> False | Some x \<Rightarrow> v \<noteq> x)"

definition range_offset :: "opal_lr_status \<Rightarrow> u32 \<Rightarrow> u64" where
  "range_offset lrs opal_block_bytes = lrs_range_start lrs * ucast opal_block_bytes div SECTOR_SIZE"

definition range_length :: "opal_lr_status \<Rightarrow> u32 \<Rightarrow> u64" where
  "range_length lrs opal_block_bytes = lrs_range_length lrs * ucast opal_block_bytes div SECTOR_SIZE"

definition read_locked :: "opal_lr_status \<Rightarrow> bool" where
  "read_locked lrs = (lrs_l_state lrs = OPAL_LK)"

definition write_locked :: "opal_lr_status \<Rightarrow> bool" where
  "write_locked lrs = (lrs_l_state lrs AND (OPAL_RO OR OPAL_LK) \<noteq> 0)"

text \<open>The five checks after the range status was read (lines 176 to 212), in order.\<close>

definition check_offset :: "u32 \<Rightarrow> u64 \<Rightarrow> u64 option \<Rightarrow> int \<times> sys \<Rightarrow> int \<times> sys" where
  "check_offset segment_number offset check_offset_sectors rs =
     (if differs check_offset_sectors offset
      then (- EINVAL, log_err (Msg_offset_mismatch segment_number offset (the check_offset_sectors)) (snd rs))
      else rs)"

definition check_length :: "u32 \<Rightarrow> u64 \<Rightarrow> u64 option \<Rightarrow> int \<times> sys \<Rightarrow> int \<times> sys" where
  "check_length segment_number len check_length_sectors rs =
     (if differs check_length_sectors len
      then (- EINVAL, log_err (Msg_length_mismatch segment_number len (the check_length_sectors)) (snd rs))
      else rs)"

definition check_enabled :: "u32 \<Rightarrow> opal_lr_status \<Rightarrow> int \<times> sys \<Rightarrow> int \<times> sys" where
  "check_enabled segment_number lrs rs =
     (if lrs_RLE lrs = 0 \<or> lrs_WLE lrs = 0
      then (- EINVAL, log_err (Msg_locking_disabled segment_number) (snd rs))
      else rs)"

definition check_read :: "u32 \<Rightarrow> opal_lr_status \<Rightarrow> bool option \<Rightarrow> int \<times> sys \<Rightarrow> int \<times> sys" where
  "check_read segment_number lrs check_read_locked rs =
     (if differs check_read_locked (read_locked lrs)
      then (- EINVAL, log_err (Msg_unexpected_lock_state segment_number)
                        (log_dbg (Msg_read_lock_is segment_number (the check_read_locked)) (snd rs)))
      else rs)"

definition check_write :: "u32 \<Rightarrow> opal_lr_status \<Rightarrow> bool option \<Rightarrow> int \<times> sys \<Rightarrow> int \<times> sys" where
  "check_write segment_number lrs check_write_locked rs =
     (if differs check_write_locked (write_locked lrs)
      then (- EINVAL, log_err (Msg_unexpected_lock_state segment_number)
                        (log_dbg (Msg_write_lock_is segment_number (the check_write_locked)) (snd rs)))
      else rs)"

definition range_checks ::
  "u32 \<Rightarrow> u32 \<Rightarrow> opal_lr_status \<Rightarrow> u64 option \<Rightarrow> u64 option \<Rightarrow> bool option \<Rightarrow> bool option
   \<Rightarrow> sys \<Rightarrow> int \<times> sys" where
  "range_checks segment_number opal_block_bytes lrs check_offset_sectors check_length_sectors
      check_read_locked check_write_locked s =
     check_write segment_number lrs check_write_locked
       (check_read segment_number lrs check_read_locked
         (check_enabled segment_number lrs
           (check_length segment_number (range_length lrs opal_block_bytes) check_length_sectors
             (check_offset segment_number (range_offset lrs opal_block_bytes) check_offset_sectors
               (0, s)))))"

text \<open>The block of lines 157 to 166, before the kernel fills it in.\<close>

definition status_block :: "u32 \<Rightarrow> volume_key \<Rightarrow> opal_lr_status" where
  "status_block segment_number vk =
     \<lparr>lrs_session = \<lparr>who = segment_number + 1,
        opal_key = \<lparr>lr = segment_number, key_len = length vk, key = vk\<rparr>\<rparr>,
      lrs_range_start = 0, lrs_range_length = 0, lrs_RLE = 0, lrs_WLE = 0, lrs_l_state = 0\<rparr>"

definition opal_range_check_attributes_fd ::
  "env \<Rightarrow> u32 \<Rightarrow> volume_key \<Rightarrow> u64 option \<Rightarrow> u64 option \<Rightarrow> bool option \<Rightarrow> bool option
   \<Rightarrow> sys \<Rightarrow> int \<times> sys" where
  "opal_range_check_attributes_fd e segment_number vk check_offset_sectors check_length_sectors
      check_read_locked check_write_locked s =
     (case opal_geometry_fd e s of
        (rg, None, s1) \<Rightarrow> (- EINVAL, s1)
      | (rg, Some (al, opal_block_bytes, gran, lowest), s1) \<Rightarrow>
          (case crypt_safe_alloc e s1 of
             (None, s2) \<Rightarrow> (- ENOMEM, crypt_safe_free None s2)
           | (Some a, s2) \<Rightarrow>
               let lrs0 = status_block segment_number vk;
                   s3 = assign a (P_lr_status lrs0) s2;
                   lrs = k_lr_status e (calls s3) lrs0;
                   (r, s4) = ioctl e IOC_OPAL_GET_LR_STATUS (P_lr_status lrs0) s3;
                   s5 = assign a (P_lr_status lrs) s4
               in if r \<noteq> OPAL_STATUS_SUCCESS
                  then (- EINVAL, crypt_safe_free (Some a) (log_dbg Msg_get_lr_status_failed s5))
                  else
                    let (r', s6) = range_checks segment_number opal_block_bytes lrs
                                     check_offset_sectors check_length_sectors
                                     check_read_locked check_write_locked s5
                    in (r', crypt_safe_free (Some a) s6)))"

definition opal_range_check_attributes ::
  "env \<Rightarrow> u32 \<Rightarrow> volume_key \<Rightarrow> u64 option \<Rightarrow> u64 option \<Rightarrow> bool option \<Rightarrow> bool option
   \<Rightarrow> sys \<Rightarrow> int \<times> sys" where
  "opal_range_check_attributes e segment_number vk check_offset_sectors check_length_sectors
      check_read_locked check_write_locked s =
     (let fd = device_open e s
      in if fd < 0 then (- EIO, s)
         else opal_range_check_attributes_fd e segment_number vk check_offset_sectors
                check_length_sectors check_read_locked check_write_locked s)"

subsection \<open>Ownership and provisioning\<close>

text \<open>
  A function that asserts returns a value or stops at the failed assertion. The pointer
  variables of \<^verbatim>\<open>opal_setup_ranges\<close> are its locals; the label \<^verbatim>\<open>out\<close> releases what they
  hold. Each block of the function is one definition that takes the code after it as
  \<open>rest\<close>: a \<^verbatim>\<open>goto out\<close> returns without running \<open>rest\<close>.
\<close>

datatype outcome = Returns int | Assert_failed

record setup_locals =
  v_activate :: "nat option"
  v_user_session :: "nat option"
  v_user_add_to_lr :: "nat option"
  v_new_pw :: "nat option"
  v_setup :: "nat option"
  v_lock :: "nat option"

type_synonym block = "setup_locals \<Rightarrow> sys \<Rightarrow> int \<times> setup_locals \<times> sys"

definition admin_opal_key :: "u32 \<Rightarrow> u8 list \<Rightarrow> opal_key" where
  "admin_opal_key l k = \<lparr>lr = l, key_len = length k, key = k\<rparr>"

text \<open>Lines 252 to 296: locking was never enabled.\<close>

definition take_ownership :: "env \<Rightarrow> u8 list \<Rightarrow> block \<Rightarrow> block" where
  "take_ownership e admin_key rest l s =
     (case crypt_safe_alloc e s of
        (None, s1) \<Rightarrow> (- ENOMEM, l\<lparr>v_activate := None\<rparr>, s1)
      | (Some a, s1) \<Rightarrow>
          let l1 = l\<lparr>v_activate := Some a\<rparr>;
              activate = \<lparr>act_key = admin_opal_key 0 admin_key, num_lrs = 8,
                          act_lr = [1, 2, 3, 4, 5, 6, 7, 8]\<rparr>;
              s2 = assign a (P_lr_act activate) s1;
              (r, s3) = ioctl e IOC_OPAL_TAKE_OWNERSHIP (P_key (act_key activate)) s2
          in if r < 0 then (- ENOTSUP, l1, log_dbg Msg_kernel_unsupported s3)
             else if r = OPAL_STATUS_NOT_AUTHORIZED
             then (- EPERM, l1, log_dbg Msg_take_ownership_denied s3)
             else if r \<noteq> OPAL_STATUS_SUCCESS
             then (- EINVAL, l1,
                   log_dbg (Msg_take_ownership_failed (opal_status_to_string e r)) s3)
             else
               let (r2, s4) = ioctl e IOC_OPAL_ACTIVATE_LSP (P_lr_act activate) s3
               in if r2 \<noteq> OPAL_STATUS_SUCCESS
                  then (- EINVAL, l1,
                        log_dbg (Msg_activate_failed (opal_status_to_string e r2)) s4)
                  else rest l1 s4)"

text \<open>Lines 297 to 325: locking is enabled, the range is wiped first.\<close>

definition wipe_range :: "env \<Rightarrow> u32 \<Rightarrow> u8 list \<Rightarrow> block \<Rightarrow> block" where
  "wipe_range e segment_number admin_key rest l s =
     (case crypt_safe_alloc e s of
        (None, s1) \<Rightarrow> (- ENOMEM, l\<lparr>v_user_session := None\<rparr>, s1)
      | (Some a, s1) \<Rightarrow>
          let l1 = l\<lparr>v_user_session := Some a\<rparr>;
              user_session = \<lparr>who = OPAL_ADMIN1,
                              opal_key = admin_opal_key segment_number admin_key\<rparr>;
              s2 = assign a (P_session user_session) s1;
              (r, s3) = ioctl e IOC_OPAL_ERASE_LR (P_session user_session) s2
          in if r \<noteq> OPAL_STATUS_SUCCESS
             then
               let s4 = log_dbg (Msg_erase_failed segment_number (opal_status_to_string e r)) s3;
                   (r2, s5) = ioctl e IOC_OPAL_SECURE_ERASE_LR (P_session user_session) s4
               in if r2 \<noteq> OPAL_STATUS_SUCCESS
                  then (- EINVAL, l1,
                        log_dbg (Msg_secure_erase_failed segment_number
                                   (opal_status_to_string e r2)) s5)
                  else rest l1 s5
             else rest l1 s3)"

text \<open>Lines 327 to 346.\<close>

definition activate_user :: "env \<Rightarrow> u32 \<Rightarrow> u8 list \<Rightarrow> block \<Rightarrow> block" where
  "activate_user e segment_number admin_key rest l s =
     (case crypt_safe_alloc e s of
        (None, s1) \<Rightarrow> (- ENOMEM, l\<lparr>v_user_session := None\<rparr>, s1)
      | (Some a, s1) \<Rightarrow>
          let l1 = l\<lparr>v_user_session := Some a\<rparr>;
              user_session = \<lparr>who = segment_number + 1, opal_key = admin_opal_key 0 admin_key\<rparr>;
              s2 = assign a (P_session user_session) s1;
              (r, s3) = ioctl e IOC_OPAL_ACTIVATE_USR (P_session user_session) s2
          in if r \<noteq> OPAL_STATUS_SUCCESS
             then (- EINVAL, l1,
                   log_dbg (Msg_activate_user_failed (opal_status_to_string e r)) s3)
             else rest l1 s3)"

text \<open>Lines 348 to 379.\<close>

definition add_user_to_lr :: "env \<Rightarrow> u32 \<Rightarrow> u8 list \<Rightarrow> block \<Rightarrow> block" where
  "add_user_to_lr e segment_number admin_key rest l s =
     (case crypt_safe_alloc e s of
        (None, s1) \<Rightarrow> (- ENOMEM, l\<lparr>v_user_add_to_lr := None\<rparr>, s1)
      | (Some a, s1) \<Rightarrow>
          let l1 = l\<lparr>v_user_add_to_lr := Some a\<rparr>;
              user_add_to_lr =
                \<lparr>lk_session = \<lparr>who = segment_number + 1,
                                opal_key = admin_opal_key segment_number admin_key\<rparr>,
                 l_state = OPAL_RO, lk_flags = 0\<rparr>;
              s2 = assign a (P_lock_unlock user_add_to_lr) s1;
              (r, s3) = ioctl e IOC_OPAL_ADD_USR_TO_LR (P_lock_unlock user_add_to_lr) s2
          in if r \<noteq> OPAL_STATUS_SUCCESS
             then (- EINVAL, l1,
                   log_dbg (Msg_add_user_ro_failed segment_number (opal_status_to_string e r)) s3)
             else
               let user_add_to_lr2 = user_add_to_lr\<lparr>l_state := OPAL_RW\<rparr>;
                   s4 = assign a (P_lock_unlock user_add_to_lr2) s3;
                   (r2, s5) = ioctl e IOC_OPAL_ADD_USR_TO_LR (P_lock_unlock user_add_to_lr2) s4
               in if r2 \<noteq> OPAL_STATUS_SUCCESS
                  then (- EINVAL, l1,
                        log_dbg (Msg_add_user_rw_failed segment_number
                                   (opal_status_to_string e r2)) s5)
                  else rest l1 s5)"

text \<open>Lines 381 to 413.\<close>

definition set_user_pw :: "env \<Rightarrow> volume_key \<Rightarrow> u32 \<Rightarrow> u8 list \<Rightarrow> block \<Rightarrow> block" where
  "set_user_pw e vk segment_number admin_key rest l s =
     (case crypt_safe_alloc e s of
        (None, s1) \<Rightarrow> (- ENOMEM, l\<lparr>v_new_pw := None\<rparr>, s1)
      | (Some a, s1) \<Rightarrow>
          let l1 = l\<lparr>v_new_pw := Some a\<rparr>;
              new_pw =
                \<lparr>pw_session = \<lparr>who = OPAL_ADMIN1,
                                opal_key = admin_opal_key segment_number admin_key\<rparr>,
                 new_user_pw = \<lparr>who = segment_number + 1,
                                 opal_key = \<lparr>lr = segment_number, key_len = length vk, key = vk\<rparr>\<rparr>\<rparr>;
              s2 = log_dbg (Msg_user_key_length (length vk)) (assign a (P_new_pw new_pw) s1);
              (r, s3) = ioctl e IOC_OPAL_SET_PW (P_new_pw new_pw) s2
          in if r \<noteq> OPAL_STATUS_SUCCESS
             then (- EINVAL, l1, log_dbg (Msg_set_pw_failed r (opal_status_to_string e r)) s3)
             else rest l1 s3)"

text \<open>Lines 415 to 445: the start and the length go into the block as they were passed.\<close>

definition setup_lr :: "env \<Rightarrow> u64 \<Rightarrow> u64 \<Rightarrow> u32 \<Rightarrow> u8 list \<Rightarrow> block \<Rightarrow> block" where
  "setup_lr e range_start range_len segment_number admin_key rest l s =
     (case crypt_safe_alloc e s of
        (None, s1) \<Rightarrow> (- ENOMEM, l\<lparr>v_setup := None\<rparr>, s1)
      | (Some a, s1) \<Rightarrow>
          let l1 = l\<lparr>v_setup := Some a\<rparr>;
              setup = \<lparr>su_range_start = range_start, su_range_length = range_len,
                       su_RLE = 1, su_WLE = 1,
                       su_session = \<lparr>who = OPAL_ADMIN1,
                                      opal_key = admin_opal_key segment_number admin_key\<rparr>\<rparr>;
              s2 = assign a (P_lr_setup setup) s1;
              (r, s3) = ioctl e IOC_OPAL_LR_SETUP (P_lr_setup setup) s2
          in if r \<noteq> OPAL_STATUS_SUCCESS
             then (- EINVAL, l1,
                   log_dbg (Msg_lr_setup_failed (su_range_length setup) (su_range_start setup)
                              (opal_status_to_string e r)) s3)
             else rest l1 s3)"

text \<open>Lines 447 to 472.\<close>

definition lock_range :: "env \<Rightarrow> volume_key \<Rightarrow> u32 \<Rightarrow> block \<Rightarrow> block" where
  "lock_range e vk segment_number rest l s =
     (case crypt_safe_alloc e s of
        (None, s1) \<Rightarrow> (- ENOMEM, l\<lparr>v_lock := None\<rparr>, s1)
      | (Some a, s1) \<Rightarrow>
          let l1 = l\<lparr>v_lock := Some a\<rparr>;
              lock = \<lparr>lk_session = \<lparr>who = segment_number + 1,
                        opal_key = \<lparr>lr = segment_number, key_len = length vk, key = vk\<rparr>\<rparr>,
                      l_state = OPAL_LK, lk_flags = 0\<rparr>;
              s2 = assign a (P_lock_unlock lock) s1;
              (r, s3) = ioctl e IOC_OPAL_LOCK_UNLOCK (P_lock_unlock lock) s2
          in if r \<noteq> OPAL_STATUS_SUCCESS
             then (- EINVAL, l1, log_dbg (Msg_lock_failed (opal_status_to_string e r)) s3)
             else rest l1 s3)"

text \<open>Lines 474 to 476: the double check, with all four expectations.\<close>

definition double_check :: "env \<Rightarrow> volume_key \<Rightarrow> u64 \<Rightarrow> u64 \<Rightarrow> u32 \<Rightarrow> block" where
  "double_check e vk range_start range_len segment_number l s =
     (let (r, s1) = opal_range_check_attributes_fd e segment_number vk (Some range_start)
                      (Some range_len) (Some True) (Some True) s
      in (r, l, s1))"

text \<open>The label \<^verbatim>\<open>out\<close>, lines 477 to 485.\<close>

definition setup_out :: "setup_locals \<Rightarrow> sys \<Rightarrow> sys" where
  "setup_out l s =
     crypt_safe_free (v_lock l)
       (crypt_safe_free (v_setup l)
         (crypt_safe_free (v_new_pw l)
           (crypt_safe_free (v_user_add_to_lr l)
             (crypt_safe_free (v_user_session l)
               (crypt_safe_free (v_activate l) s)))))"

definition no_locals :: setup_locals where
  "no_locals = \<lparr>v_activate = None, v_user_session = None, v_user_add_to_lr = None,
                 v_new_pw = None, v_setup = None, v_lock = None\<rparr>"

definition provision :: "env \<Rightarrow> volume_key \<Rightarrow> u64 \<Rightarrow> u64 \<Rightarrow> u32 \<Rightarrow> u8 list \<Rightarrow> block" where
  "provision e vk range_start range_len segment_number admin_key =
     activate_user e segment_number admin_key
       (add_user_to_lr e segment_number admin_key
         (set_user_pw e vk segment_number admin_key
           (setup_lr e range_start range_len segment_number admin_key
             (lock_range e vk segment_number
               (double_check e vk range_start range_len segment_number)))))"

definition opal_setup_ranges ::
  "env \<Rightarrow> volume_key \<Rightarrow> u64 \<Rightarrow> u64 \<Rightarrow> u32 \<Rightarrow> u8 list \<Rightarrow> sys \<Rightarrow> outcome \<times> sys" where
  "opal_setup_ranges e vk range_start range_len segment_number admin_key s =
     (if \<not> length vk \<le> OPAL_KEY_MAX then (Assert_failed, s)
      else if length admin_key > OPAL_KEY_MAX then (Returns (- EINVAL), s)
      else if device_open e s < 0 then (Returns (- EIO), s)
      else
        case opal_enabled e s of (r, s1) \<Rightarrow>
          if r < 0 then (Returns r, s1)
          else
            case (if r = 0 then take_ownership e admin_key
                  else wipe_range e segment_number admin_key)
                   (provision e vk range_start range_len segment_number admin_key)
                   no_locals s1 of
              (r', l, s2) \<Rightarrow> (Returns r', setup_out l s2))"

subsection \<open>Lock and unlock\<close>

definition zero_key :: "opal_key \<Rightarrow> opal_key" where
  "zero_key k = k\<lparr>key := crypt_safe_memzero (key k) (key_len k)\<rparr>"

text \<open>The label \<^verbatim>\<open>out\<close> of \<^verbatim>\<open>opal_lock_unlock\<close>, lines 553 to 557.\<close>

definition lock_unlock_out :: "bool \<Rightarrow> int \<Rightarrow> opal_lock_unlock \<Rightarrow> sys \<Rightarrow> outcome \<times> sys" where
  "lock_unlock_out lock r unlock s =
     (Returns r,
      leave (P_lock_unlock
               (if \<not> lock
                then unlock\<lparr>lk_session :=
                       (lk_session unlock)\<lparr>opal_key := zero_key (opal_key (lk_session unlock))\<rparr>\<rparr>
                else unlock)) s)"

definition opal_lock_unlock ::
  "env \<Rightarrow> u32 \<Rightarrow> volume_key option \<Rightarrow> bool \<Rightarrow> sys \<Rightarrow> outcome \<times> sys" where
  "opal_lock_unlock e segment_number vk lock s =
     (let unlock0 = \<lparr>lk_session = \<lparr>who = segment_number + 1,
                       opal_key = \<lparr>lr = segment_number, key_len = 0, key = []\<rparr>\<rparr>,
                     l_state = (if lock then OPAL_LK else OPAL_RW), lk_flags = 0\<rparr>
      in case opal_supported e s of (supported, s1) \<Rightarrow>
        if supported \<le> 0 then (Returns (- ENOTSUP), leave (P_lock_unlock unlock0) s1)
        else if \<not> lock \<and> vk = None then (Returns (- EINVAL), leave (P_lock_unlock unlock0) s1)
        else if device_open e s1 < 0 then (Returns (- EIO), leave (P_lock_unlock unlock0) s1)
        else if \<not> lock \<and> \<not> length (the vk) \<le> OPAL_KEY_MAX then (Assert_failed, s1)
        else
          let unlock =
                (if \<not> lock
                 then unlock0\<lparr>lk_session :=
                        (lk_session unlock0)\<lparr>opal_key :=
                           \<lparr>lr = segment_number, key_len = length (the vk), key = the vk\<rparr>\<rparr>\<rparr>
                 else unlock0);
              (r, s2) = ioctl e IOC_OPAL_LOCK_UNLOCK (P_lock_unlock unlock) s1
          in if r < 0 then lock_unlock_out lock (- ENOTSUP) unlock (log_dbg Msg_kernel_unsupported s2)
             else if r = OPAL_STATUS_NOT_AUTHORIZED
             then lock_unlock_out lock (- EPERM) unlock (log_dbg (Msg_lock_unlock_denied lock) s2)
             else if r \<noteq> OPAL_STATUS_SUCCESS
             then lock_unlock_out lock (- EINVAL) unlock
                    (log_dbg (Msg_lock_unlock_failed lock (opal_status_to_string e r)) s2)
             else if \<not> lock
             then
               let unlock2 = unlock\<lparr>lk_flags := OPAL_SAVE_FOR_LOCK\<rparr>;
                   (r2, s3) = ioctl e IOC_OPAL_SAVE (P_lock_unlock unlock2) s2
               in if r2 \<noteq> OPAL_STATUS_SUCCESS
                  then lock_unlock_out lock 0 unlock2
                         (log_std (Msg_save_failed (opal_status_to_string e r2)) s3)
                  else lock_unlock_out lock r2 unlock2 s3
             else lock_unlock_out lock r unlock s2)"

definition opal_lock :: "env \<Rightarrow> u32 \<Rightarrow> sys \<Rightarrow> outcome \<times> sys" where
  "opal_lock e segment_number s = opal_lock_unlock e segment_number None True s"

definition opal_unlock :: "env \<Rightarrow> u32 \<Rightarrow> volume_key \<Rightarrow> sys \<Rightarrow> outcome \<times> sys" where
  "opal_unlock e segment_number vk s = opal_lock_unlock e segment_number (Some vk) False s"

subsection \<open>Reset operations\<close>

definition opal_factory_reset :: "env \<Rightarrow> u8 list \<Rightarrow> sys \<Rightarrow> int \<times> sys" where
  "opal_factory_reset e password s =
     (let reset0 = \<lparr>lr = 0, key_len = length password, key = []\<rparr>
      in if length password > OPAL_KEY_MAX then (- EINVAL, leave (P_key reset0) s)
         else if device_open e s < 0 then (- EIO, leave (P_key reset0) s)
         else
           let reset = reset0\<lparr>key := password\<rparr>;
               (r, s1) = ioctl e IOC_OPAL_PSID_REVERT_TPR (P_key reset) s;
               (r', s2) =
                 (if r < 0 then (- ENOTSUP, log_dbg Msg_kernel_unsupported s1)
                  else if r = OPAL_STATUS_NOT_AUTHORIZED then (- EPERM, log_dbg Msg_psid_denied s1)
                  else if r \<noteq> OPAL_STATUS_SUCCESS
                  then (- EINVAL, log_dbg (Msg_psid_failed (opal_status_to_string e (- EINVAL))) s1)
                  else (r, s1))
           in (r', leave (P_key (zero_key reset)) s2))"

text \<open>The label \<^verbatim>\<open>out\<close> of \<^verbatim>\<open>opal_reset_segment\<close>, lines 695 to 699.\<close>

definition reset_out :: "nat option \<Rightarrow> nat option \<Rightarrow> sys \<Rightarrow> sys" where
  "reset_out user_session setup s = crypt_safe_free setup (crypt_safe_free user_session s)"

definition opal_reset_segment :: "env \<Rightarrow> u32 \<Rightarrow> u8 list \<Rightarrow> sys \<Rightarrow> int \<times> sys" where
  "opal_reset_segment e segment_number password s =
     (if length password > OPAL_KEY_MAX then (- EINVAL, s)
      else
        case opal_enabled e s of (en, s1) \<Rightarrow>
          if en \<le> 0 then (- EINVAL, s1)
          else
            (case crypt_safe_alloc e s1 of
              (None, s2) \<Rightarrow> (- ENOMEM, s2)
            | (Some a, s2) \<Rightarrow>
                let user_session = \<lparr>who = OPAL_ADMIN1,
                                    opal_key = admin_opal_key segment_number password\<rparr>;
                    s3 = assign a (P_session user_session) s2
                in if device_open e s3 < 0 then (- EIO, reset_out (Some a) None s3)
                   else
                     let (r, s4) = ioctl e IOC_OPAL_ERASE_LR (P_session user_session) s3
                     in if r \<noteq> OPAL_STATUS_SUCCESS
                        then
                          let s5 = log_dbg (Msg_erase_failed segment_number
                                              (opal_status_to_string e r)) s4;
                              (r2, s6) = ioctl e IOC_OPAL_SECURE_ERASE_LR
                                           (P_session user_session) s5
                          in if r2 \<noteq> OPAL_STATUS_SUCCESS
                             then (- EINVAL,
                                   reset_out (Some a) None
                                     (log_dbg (Msg_secure_erase_failed segment_number
                                                 (opal_status_to_string e r2)) s6))
                             else
                               (case crypt_safe_alloc e s6 of
                                  (None, s7) \<Rightarrow> (- ENOMEM, reset_out (Some a) None s7)
                                | (Some b, s7) \<Rightarrow>
                                    let setup = \<lparr>su_range_start = 0, su_range_length = 0,
                                                 su_RLE = 0, su_WLE = 0,
                                                 su_session = \<lparr>who = OPAL_ADMIN1,
                                                   opal_key = opal_key user_session\<rparr>\<rparr>;
                                        s8 = assign b (P_lr_setup setup) s7;
                                        (r3, s9) = ioctl e IOC_OPAL_LR_SETUP (P_lr_setup setup) s8
                                    in if r3 \<noteq> OPAL_STATUS_SUCCESS
                                       then (- EINVAL,
                                             reset_out (Some a) (Some b)
                                               (log_dbg (Msg_disable_range_failed
                                                           (opal_status_to_string e r3)) s9))
                                       else (r3, reset_out (Some a) (Some b) s9))
                        else (r, reset_out (Some a) None s4)))"

subsection \<open>Blocks and calls named in the properties\<close>

definition ownership_call :: "u8 list \<Rightarrow> call" where
  "ownership_call admin_key = (IOC_OPAL_TAKE_OWNERSHIP, P_key (admin_opal_key 0 admin_key))"

definition status_query :: call where
  "status_query = (IOC_OPAL_GET_STATUS, P_status \<lparr>st_flags = 0\<rparr>)"

definition admin_session :: "u32 \<Rightarrow> u8 list \<Rightarrow> opal_session_info" where
  "admin_session segment_number k =
     \<lparr>who = OPAL_ADMIN1, opal_key = admin_opal_key segment_number k\<rparr>"

definition unlock_block :: "u32 \<Rightarrow> volume_key \<Rightarrow> nat \<Rightarrow> opal_lock_unlock" where
  "unlock_block segment_number vk fl =
     \<lparr>lk_session = \<lparr>who = segment_number + 1,
        opal_key = \<lparr>lr = segment_number, key_len = length vk, key = vk\<rparr>\<rparr>,
      l_state = OPAL_RW, lk_flags = fl\<rparr>"

definition disable_block :: "u32 \<Rightarrow> u8 list \<Rightarrow> opal_user_lr_setup" where
  "disable_block segment_number k =
     \<lparr>su_range_start = 0, su_range_length = 0, su_RLE = 0, su_WLE = 0,
      su_session = admin_session segment_number k\<rparr>"

text \<open>What the five checks of the verifier write to the log, one part for each check.\<close>

definition mismatch_logs ::
  "u32 \<Rightarrow> u32 \<Rightarrow> opal_lr_status \<Rightarrow> u64 option \<Rightarrow> u64 option \<Rightarrow> bool option \<Rightarrow> bool option
   \<Rightarrow> log_entry list" where
  "mismatch_logs seg bs lrs co cl crl cwl =
     (if differs co (range_offset lrs bs)
      then [(LOG_ERR, Msg_offset_mismatch seg (range_offset lrs bs) (the co))] else [])
     @ (if differs cl (range_length lrs bs)
        then [(LOG_ERR, Msg_length_mismatch seg (range_length lrs bs) (the cl))] else [])
     @ (if lrs_RLE lrs = 0 \<or> lrs_WLE lrs = 0
        then [(LOG_ERR, Msg_locking_disabled seg)] else [])
     @ (if differs crl (read_locked lrs)
        then [(LOG_DBG, Msg_read_lock_is seg (the crl)), (LOG_ERR, Msg_unexpected_lock_state seg)]
        else [])
     @ (if differs cwl (write_locked lrs)
        then [(LOG_DBG, Msg_write_lock_is seg (the cwl)), (LOG_ERR, Msg_unexpected_lock_state seg)]
        else [])"

subsection \<open>A simulated drive\<close>

text \<open>
  A drive for the concrete runs: the device opens, every buffer is served, each control
  call returns what \<open>answer\<close> gives for its command, the status flags and the block size
  are fixed, and the range status reports the start, length and enable flags of the
  last configure-range call and the state of the last lock-state-change call.
\<close>

definition drive_step :: "opal_lr_status \<Rightarrow> call \<Rightarrow> opal_lr_status" where
  "drive_step lrs c =
     (case c of
        (IOC_OPAL_LR_SETUP, P_lr_setup su) \<Rightarrow>
          lrs\<lparr>lrs_range_start := su_range_start su, lrs_range_length := su_range_length su,
               lrs_RLE := su_RLE su, lrs_WLE := su_WLE su\<rparr>
      | (IOC_OPAL_LOCK_UNLOCK, P_lock_unlock lk) \<Rightarrow> lrs\<lparr>lrs_l_state := l_state lk\<rparr>
      | _ \<Rightarrow> lrs)"

definition sim_drive :: "u32 \<Rightarrow> u32 \<Rightarrow> (ioc \<Rightarrow> int) \<Rightarrow> env" where
  "sim_drive flags block_bytes answer =
     \<lparr>k_open = (\<lambda>h. 3), k_alloc = (\<lambda>n. True), k_strerror = (\<lambda>n. ''error''),
      k_ioctl = (\<lambda>h c. answer (fst c)),
      k_status = (\<lambda>h. \<lparr>st_flags = flags\<rparr>),
      k_geometry = (\<lambda>h. \<lparr>geo_align = 0, logical_block_size = block_bytes,
                           alignment_granularity = 1, lowest_aligned_lba = 0\<rparr>),
      k_lr_status = (\<lambda>h lrs. foldl drive_step lrs h)\<rparr>"

definition sys0 :: sys where
  "sys0 = \<lparr>calls = [], logs = [], pool = [], stack = []\<rparr>"

text \<open>
  Answers of the simulated drive: every call succeeds, or take-ownership alone is
  answered with the not-authorized status. \<open>long_key\<close> is one byte longer than the
  maximum.
\<close>

definition ok_answers :: "ioc \<Rightarrow> int" where
  "ok_answers c = 0"

definition denied_ownership :: "ioc \<Rightarrow> int" where
  "denied_ownership c = (if c = IOC_OPAL_TAKE_OWNERSHIP then 1 else 0)"

definition long_key :: "u8 list" where
  "long_key = replicate 257 0"

section \<open>Properties\<close>

subsection \<open>Auxiliary facts\<close>

lemmas step_defs = crypt_safe_alloc_def assign_def ioctl_def log_dbg_def Let_def split_beta

lemmas check_defs = range_checks_def check_offset_def check_length_def check_enabled_def
  check_read_def check_write_def log_err_def log_dbg_def

lemmas const_defs =
  OPAL_KEY_MAX_def SECTOR_SIZE_def OPAL_RO_def OPAL_RW_def OPAL_LK_def OPAL_ADMIN1_def
  OPAL_SAVE_FOR_LOCK_def OPAL_FL_SUPPORTED_def OPAL_FL_LOCKING_SUPPORTED_def
  OPAL_FL_LOCKING_ENABLED_def OPAL_STATUS_SUCCESS_def OPAL_STATUS_NOT_AUTHORIZED_def
  OPAL_STATUS_MAX_def EPERM_def EIO_def ENOMEM_def EINVAL_def ENOTSUP_def

lemmas block_defs = admin_opal_key_def admin_session_def unlock_block_def disable_block_def
  status_block_def ownership_call_def status_query_def

lemmas sim_defs = sim_drive_def drive_step_def sys0_def device_open_def

lemmas run_defs =
  opal_setup_ranges_def provision_def take_ownership_def wipe_range_def activate_user_def
  add_user_to_lr_def set_user_pw_def setup_lr_def lock_range_def double_check_def setup_out_def
  no_locals_def opal_range_check_attributes_fd_def opal_range_check_attributes_def
  opal_geometry_fd_def opal_enabled_def opal_supported_def opal_query_status_def
  crypt_safe_free_def log_std_def leave_def differs_def range_offset_def range_length_def
  read_locked_def write_locked_def step_defs range_checks_def check_offset_def
  check_length_def check_enabled_def check_read_def check_write_def log_err_def
  const_defs block_defs sim_defs

lemma and_or_zero: "(x AND (a OR b) = 0) = (x AND a = 0 \<and> x AND b = 0)" for x :: u32
  by (simp add: bit.conj_disj_distrib or_eq_0_iff)

lemma query_status_calls:
  "calls (snd (opal_query_status e x s)) = calls s \<or>
   calls (snd (opal_query_status e x s)) = calls s @ [status_query]"
  by (simp add: opal_query_status_def ioctl_def Let_def status_query_def)

lemma crypt_safe_free_calls: "calls (crypt_safe_free p s) = calls s"
  by (simp add: crypt_safe_free_def split: option.splits)

lemma crypt_safe_free_logs: "logs (crypt_safe_free p s) = logs s"
  by (simp add: crypt_safe_free_def split: option.splits)

subsection \<open>Status translator\<close>

text \<open>
  C3: the status translator is claimed to return a valid string for every result code,
  every non-negative value below the table top being a non-null table entry. The table
  has no initialiser for the values 18 to 62: at 18, which is below the table top, the
  function returns the null pointer.
\<close>

theorem opal_status_to_string_null_entry:
  "opal_status_to_string e 18 = None \<and> (0::int) \<le> 18 \<and> 18 < OPAL_STATUS_MAX"
  by (simp add: opal_status_to_string_def opal_status_table_def OPAL_STATUS_MAX_def nth_append)

subsection \<open>Capability query\<close>

text \<open>
  C10: when the device opens and the status query does not fail, \<^verbatim>\<open>opal_supported\<close>
  returns 1 if at least one of the bits Opal-supported and locking-supported is set in
  the reported flags, and 0 if both are clear.
\<close>

theorem opal_supported_any_bit:
  assumes "0 \<le> device_open e s"
    and "0 \<le> k_ioctl e (calls s) status_query"
  shows "fst (opal_supported e s) =
           (if st_flags (k_status e (calls s)) AND OPAL_FL_SUPPORTED \<noteq> 0
               \<or> st_flags (k_status e (calls s)) AND OPAL_FL_LOCKING_SUPPORTED \<noteq> 0
            then 1 else 0)"
  using assms
  by (simp add: opal_supported_def opal_query_status_def ioctl_def Let_def and_or_zero
      status_query_def)

text \<open>A drive that advertises Opal support without locking support is reported as supported.\<close>

theorem opal_supported_any_bit_witness:
  "0 \<le> device_open (sim_drive 1 512 (\<lambda>c. 0)) sys0 \<and>
   0 \<le> k_ioctl (sim_drive 1 512 (\<lambda>c. 0)) (calls sys0) status_query \<and>
   st_flags (k_status (sim_drive 1 512 (\<lambda>c. 0)) (calls sys0)) AND OPAL_FL_LOCKING_SUPPORTED = 0 \<and>
   fst (opal_supported (sim_drive 1 512 (\<lambda>c. 0)) sys0) = 1"
proof -
  have h1: "0 \<le> device_open (sim_drive 1 512 (\<lambda>c. 0)) sys0"
    by (simp add: sim_defs)
  have h2: "0 \<le> k_ioctl (sim_drive 1 512 (\<lambda>c. 0)) (calls sys0) status_query"
    by (simp add: sim_defs)
  show ?thesis
    using h1 h2 opal_supported_any_bit [OF h1 h2]
    by (simp add: sim_defs const_defs)
qed

subsection \<open>Factory reset\<close>

text \<open>
  C7: when the PSID revert is answered with the not-authorized status,
  \<^verbatim>\<open>opal_factory_reset\<close> returns \<open>-EPERM\<close>; every other positive protocol status gives
  \<open>-EINVAL\<close>, and the two values differ.
\<close>

theorem factory_reset_wrong_psid:
  assumes "length password \<le> OPAL_KEY_MAX" and "0 \<le> device_open e s"
    and "r = k_ioctl e (calls s) (IOC_OPAL_PSID_REVERT_TPR, P_key (admin_opal_key 0 password))"
  shows "(r = OPAL_STATUS_NOT_AUTHORIZED \<longrightarrow> fst (opal_factory_reset e password s) = - EPERM)
       \<and> (0 < r \<and> r \<noteq> OPAL_STATUS_NOT_AUTHORIZED \<longrightarrow>
            fst (opal_factory_reset e password s) = - EINVAL)
       \<and> - EPERM \<noteq> - EINVAL"
  using assms
  by (simp add: opal_factory_reset_def ioctl_def Let_def split_beta admin_opal_key_def
      OPAL_STATUS_SUCCESS_def OPAL_STATUS_NOT_AUTHORIZED_def EPERM_def EINVAL_def)

theorem factory_reset_wrong_psid_witness:
  "length [7, 7 :: u8] \<le> OPAL_KEY_MAX \<and>
   0 \<le> device_open (sim_drive 3 512 (\<lambda>c. 1)) sys0 \<and>
   k_ioctl (sim_drive 3 512 (\<lambda>c. 1)) (calls sys0)
     (IOC_OPAL_PSID_REVERT_TPR, P_key (admin_opal_key 0 [7, 7])) = OPAL_STATUS_NOT_AUTHORIZED \<and>
   fst (opal_factory_reset (sim_drive 3 512 (\<lambda>c. 1)) [7, 7] sys0) = - EPERM \<and>
   0 < k_ioctl (sim_drive 3 512 (\<lambda>c. 0x3F)) (calls sys0)
     (IOC_OPAL_PSID_REVERT_TPR, P_key (admin_opal_key 0 [7, 7])) \<and>
   fst (opal_factory_reset (sim_drive 3 512 (\<lambda>c. 0x3F)) [7, 7] sys0) = - EINVAL"
proof -
  have h1: "length [7, 7 :: u8] \<le> OPAL_KEY_MAX"
    by (simp add: OPAL_KEY_MAX_def)
  have h2: "0 \<le> device_open (sim_drive 3 512 a) sys0" for a
    by (simp add: sim_defs)
  show ?thesis
    using h1 h2
      factory_reset_wrong_psid [OF h1 h2 refl, of "\<lambda>c. 1"]
      factory_reset_wrong_psid [OF h1 h2 refl, of "\<lambda>c. 0x3F"]
    by (simp add: sim_defs OPAL_STATUS_NOT_AUTHORIZED_def)
qed

subsection \<open>Lock and unlock\<close>

lemma lock_no_save:
  "\<exists>ys. calls (snd (opal_lock e seg s)) = calls s @ ys \<and> (\<forall>p. (IOC_OPAL_SAVE, p) \<notin> set ys)"
proof -
  obtain supp s1 where q: "opal_supported e s = (supp, s1)"
    by (cases "opal_supported e s")
  have "calls s1 = calls s \<or> calls s1 = calls s @ [status_query]"
    using query_status_calls [of e "OPAL_FL_SUPPORTED OR OPAL_FL_LOCKING_SUPPORTED" s] q
    by (simp add: opal_supported_def)
  then obtain ys0 where ys0: "calls s1 = calls s @ ys0" "\<forall>p. (IOC_OPAL_SAVE, p) \<notin> set ys0"
    by (auto simp: status_query_def)
  show ?thesis
    using q ys0
    by (auto simp: opal_lock_def opal_lock_unlock_def ioctl_def lock_unlock_out_def leave_def
        log_dbg_def Let_def split_beta)
qed

text \<open>
  C8: when the unlock call succeeds, the save-for-resume call follows, and whatever it
  returns the operation returns 0; if it fails, the failure is written to the log.
  Locking never issues the save-for-resume call.
\<close>

theorem unlock_save_best_effort:
  assumes "length vk \<le> OPAL_KEY_MAX"
    and "opal_supported e s = (supp, s1)" and "0 < supp" and "0 \<le> device_open e s1"
    and "k_ioctl e (calls s1) (IOC_OPAL_LOCK_UNLOCK, P_lock_unlock (unlock_block seg vk 0))
           = OPAL_STATUS_SUCCESS"
    and "r2 = k_ioctl e (calls s1 @ [(IOC_OPAL_LOCK_UNLOCK, P_lock_unlock (unlock_block seg vk 0))])
                (IOC_OPAL_SAVE, P_lock_unlock (unlock_block seg vk OPAL_SAVE_FOR_LOCK))"
  shows "fst (opal_unlock e seg vk s) = Returns 0
       \<and> calls (snd (opal_unlock e seg vk s)) =
           calls s1 @ [(IOC_OPAL_LOCK_UNLOCK, P_lock_unlock (unlock_block seg vk 0)),
                       (IOC_OPAL_SAVE, P_lock_unlock (unlock_block seg vk OPAL_SAVE_FOR_LOCK))]
       \<and> (r2 \<noteq> OPAL_STATUS_SUCCESS \<longrightarrow>
            logs (snd (opal_unlock e seg vk s)) =
              logs s1 @ [(LOG_STD, Msg_save_failed (opal_status_to_string e r2))])
       \<and> (\<exists>ys. calls (snd (opal_lock e seg s)) = calls s @ ys
                \<and> (\<forall>p. (IOC_OPAL_SAVE, p) \<notin> set ys))"
proof -
  have "fst (opal_unlock e seg vk s) = Returns 0"
    using assms
    by (simp add: opal_unlock_def opal_lock_unlock_def ioctl_def lock_unlock_out_def Let_def
        split_beta unlock_block_def OPAL_STATUS_SUCCESS_def OPAL_STATUS_NOT_AUTHORIZED_def)
  moreover have "calls (snd (opal_unlock e seg vk s)) =
           calls s1 @ [(IOC_OPAL_LOCK_UNLOCK, P_lock_unlock (unlock_block seg vk 0)),
                       (IOC_OPAL_SAVE, P_lock_unlock (unlock_block seg vk OPAL_SAVE_FOR_LOCK))]"
    using assms
    by (simp add: opal_unlock_def opal_lock_unlock_def ioctl_def lock_unlock_out_def leave_def
        log_std_def Let_def split_beta unlock_block_def OPAL_STATUS_SUCCESS_def
        OPAL_STATUS_NOT_AUTHORIZED_def)
  moreover have "r2 \<noteq> OPAL_STATUS_SUCCESS \<longrightarrow>
            logs (snd (opal_unlock e seg vk s)) =
              logs s1 @ [(LOG_STD, Msg_save_failed (opal_status_to_string e r2))]"
    using assms
    by (simp add: opal_unlock_def opal_lock_unlock_def ioctl_def lock_unlock_out_def leave_def
        log_std_def Let_def split_beta unlock_block_def OPAL_STATUS_SUCCESS_def
        OPAL_STATUS_NOT_AUTHORIZED_def)
  ultimately show ?thesis
    using lock_no_save [of e seg s] by blast
qed

theorem unlock_save_best_effort_witness:
  "length [1, 2 :: u8] \<le> OPAL_KEY_MAX \<and>
   opal_supported (sim_drive 3 512 (\<lambda>c. if c = IOC_OPAL_SAVE then 1 else 0)) sys0
     = (1, sys0\<lparr>calls := [status_query]\<rparr>) \<and>
   k_ioctl (sim_drive 3 512 (\<lambda>c. if c = IOC_OPAL_SAVE then 1 else 0))
     [status_query, (IOC_OPAL_LOCK_UNLOCK, P_lock_unlock (unlock_block 1 [1, 2] 0))]
     (IOC_OPAL_SAVE, P_lock_unlock (unlock_block 1 [1, 2] OPAL_SAVE_FOR_LOCK)) \<noteq> OPAL_STATUS_SUCCESS \<and>
   fst (opal_unlock (sim_drive 3 512 (\<lambda>c. if c = IOC_OPAL_SAVE then 1 else 0)) 1 [1, 2] sys0)
     = Returns 0 \<and>
   logs (snd (opal_unlock (sim_drive 3 512 (\<lambda>c. if c = IOC_OPAL_SAVE then 1 else 0)) 1 [1, 2] sys0))
     = [(LOG_STD, Msg_save_failed (Some ''not authorized''))]"
proof -
  let ?e = "sim_drive 3 512 (\<lambda>c. if c = IOC_OPAL_SAVE then 1 else 0)"
  let ?s1 = "sys0\<lparr>calls := [status_query]\<rparr>"
  have h1: "length [1, 2 :: u8] \<le> OPAL_KEY_MAX"
    by (simp add: OPAL_KEY_MAX_def)
  have h2: "opal_supported ?e sys0 = (1, ?s1)"
    by (simp add: opal_supported_def opal_query_status_def ioctl_def Let_def sim_defs const_defs
        status_query_def)
  have h3: "(0::int) < 1" by simp
  have h4: "0 \<le> device_open ?e ?s1"
    by (simp add: sim_defs)
  have h5: "k_ioctl ?e (calls ?s1) (IOC_OPAL_LOCK_UNLOCK, P_lock_unlock (unlock_block 1 [1, 2] 0))
              = OPAL_STATUS_SUCCESS"
    by (simp add: sim_defs const_defs)
  have str: "opal_status_to_string ?e 1 = Some ''not authorized''"
    by (simp add: opal_status_to_string_def opal_status_table_def OPAL_STATUS_MAX_def)
  show ?thesis
    using h1 h2 unlock_save_best_effort [OF h1 h2 h3 h4 h5 refl] str
    by (simp add: sim_defs const_defs)
qed

subsection \<open>Range attribute verifier\<close>

lemma range_checks_logs:
  "logs (snd (range_checks seg bs lrs co cl crl cwl s)) = logs s @ mismatch_logs seg bs lrs co cl crl cwl"
  by (simp add: check_defs mismatch_logs_def)

lemma range_checks_fst:
  "fst (range_checks seg bs lrs co cl crl cwl s) =
     (if differs co (range_offset lrs bs) \<or> differs cl (range_length lrs bs)
         \<or> lrs_RLE lrs = 0 \<or> lrs_WLE lrs = 0
         \<or> differs crl (read_locked lrs) \<or> differs cwl (write_locked lrs)
      then - EINVAL else 0)"
  by (simp add: check_defs)

lemma range_checks_calls: "calls (snd (range_checks seg bs lrs co cl crl cwl s)) = calls s"
  by (simp add: check_defs)

lemma write_locked_states:
  "lrs_l_state lrs \<in> {OPAL_RO, OPAL_RW, OPAL_LK} \<Longrightarrow>
   write_locked lrs = (lrs_l_state lrs = OPAL_LK \<or> lrs_l_state lrs = OPAL_RO)"
  by (auto simp: write_locked_def OPAL_RO_def OPAL_RW_def OPAL_LK_def)

lemma check_fd_ok:
  assumes "k_ioctl e (calls s) (IOC_OPAL_GET_GEOMETRY, P_geometry) = OPAL_STATUS_SUCCESS"
    and "k_alloc e (length (pool s))"
    and "k_ioctl e (calls s @ [(IOC_OPAL_GET_GEOMETRY, P_geometry)])
           (IOC_OPAL_GET_LR_STATUS, P_lr_status (status_block seg vk)) = OPAL_STATUS_SUCCESS"
    and "bs = logical_block_size (k_geometry e (calls s))"
    and "lrs = k_lr_status e (calls s @ [(IOC_OPAL_GET_GEOMETRY, P_geometry)]) (status_block seg vk)"
  shows "fst (opal_range_check_attributes_fd e seg vk co cl crl cwl s) =
           (if differs co (range_offset lrs bs) \<or> differs cl (range_length lrs bs)
               \<or> lrs_RLE lrs = 0 \<or> lrs_WLE lrs = 0
               \<or> differs crl (read_locked lrs) \<or> differs cwl (write_locked lrs)
            then - EINVAL else 0)"
    and "logs (snd (opal_range_check_attributes_fd e seg vk co cl crl cwl s)) =
           logs s @ mismatch_logs seg bs lrs co cl crl cwl"
  using assms
  by (simp_all add: opal_range_check_attributes_fd_def opal_geometry_fd_def ioctl_def
      crypt_safe_alloc_def assign_def Let_def split_beta range_checks_fst range_checks_logs
      crypt_safe_free_logs)

text \<open>
  C5: once the range status was read, the verifier fails when either enable flag is
  clear, whatever expectations were passed; every expectation that was passed and
  differs is written to the log, none of them hiding a later one; the read lock is
  derived as locked exactly when the state is the locked state, and, the state being one
  of read-only, read-write and locked, the write lock exactly when it is locked or
  read-only.
\<close>

theorem range_check_attributes_checks:
  assumes "k_ioctl e (calls s) (IOC_OPAL_GET_GEOMETRY, P_geometry) = OPAL_STATUS_SUCCESS"
    and "k_alloc e (length (pool s))"
    and "k_ioctl e (calls s @ [(IOC_OPAL_GET_GEOMETRY, P_geometry)])
           (IOC_OPAL_GET_LR_STATUS, P_lr_status (status_block seg vk)) = OPAL_STATUS_SUCCESS"
    and "bs = logical_block_size (k_geometry e (calls s))"
    and "lrs = k_lr_status e (calls s @ [(IOC_OPAL_GET_GEOMETRY, P_geometry)]) (status_block seg vk)"
    and "res = opal_range_check_attributes_fd e seg vk co cl crl cwl s"
  shows "(lrs_RLE lrs = 0 \<or> lrs_WLE lrs = 0 \<longrightarrow>
            fst res = - EINVAL \<and> (LOG_ERR, Msg_locking_disabled seg) \<in> set (logs (snd res)))
       \<and> (differs co (range_offset lrs bs) \<longrightarrow>
            (LOG_ERR, Msg_offset_mismatch seg (range_offset lrs bs) (the co)) \<in> set (logs (snd res)))
       \<and> (differs cl (range_length lrs bs) \<longrightarrow>
            (LOG_ERR, Msg_length_mismatch seg (range_length lrs bs) (the cl)) \<in> set (logs (snd res)))
       \<and> (differs crl (lrs_l_state lrs = OPAL_LK) \<longrightarrow>
            (LOG_DBG, Msg_read_lock_is seg (the crl)) \<in> set (logs (snd res)))
       \<and> (lrs_l_state lrs \<in> {OPAL_RO, OPAL_RW, OPAL_LK} \<longrightarrow>
            differs cwl (lrs_l_state lrs = OPAL_LK \<or> lrs_l_state lrs = OPAL_RO) \<longrightarrow>
            (LOG_DBG, Msg_write_lock_is seg (the cwl)) \<in> set (logs (snd res)))
       \<and> logs (snd res) = logs s @ mismatch_logs seg bs lrs co cl crl cwl
       \<and> fst res =
           (if differs co (range_offset lrs bs) \<or> differs cl (range_length lrs bs)
               \<or> lrs_RLE lrs = 0 \<or> lrs_WLE lrs = 0
               \<or> differs crl (read_locked lrs) \<or> differs cwl (write_locked lrs)
            then - EINVAL else 0)
       \<and> read_locked lrs = (lrs_l_state lrs = OPAL_LK)
       \<and> (lrs_l_state lrs \<in> {OPAL_RO, OPAL_RW, OPAL_LK} \<longrightarrow>
            write_locked lrs = (lrs_l_state lrs = OPAL_LK \<or> lrs_l_state lrs = OPAL_RO))"
proof -
  note fd = check_fd_ok [OF assms(1-5), of co cl crl cwl]
  have lg: "logs (snd res) = logs s @ mismatch_logs seg bs lrs co cl crl cwl"
    using fd(2) assms(6) by simp
  have rv: "fst res =
           (if differs co (range_offset lrs bs) \<or> differs cl (range_length lrs bs)
               \<or> lrs_RLE lrs = 0 \<or> lrs_WLE lrs = 0
               \<or> differs crl (read_locked lrs) \<or> differs cwl (write_locked lrs)
            then - EINVAL else 0)"
    using fd(1) assms(6) by simp
  have rd: "read_locked lrs = (lrs_l_state lrs = OPAL_LK)"
    by (simp add: read_locked_def)
  have wr: "lrs_l_state lrs \<in> {OPAL_RO, OPAL_RW, OPAL_LK} \<longrightarrow>
            write_locked lrs = (lrs_l_state lrs = OPAL_LK \<or> lrs_l_state lrs = OPAL_RO)"
    using write_locked_states by blast
  have c1: "lrs_RLE lrs = 0 \<or> lrs_WLE lrs = 0 \<longrightarrow>
            fst res = - EINVAL \<and> (LOG_ERR, Msg_locking_disabled seg) \<in> set (logs (snd res))"
    by (simp add: rv lg mismatch_logs_def)
  have c2: "differs co (range_offset lrs bs) \<longrightarrow>
            (LOG_ERR, Msg_offset_mismatch seg (range_offset lrs bs) (the co)) \<in> set (logs (snd res))"
    by (simp add: lg mismatch_logs_def)
  have c3: "differs cl (range_length lrs bs) \<longrightarrow>
            (LOG_ERR, Msg_length_mismatch seg (range_length lrs bs) (the cl)) \<in> set (logs (snd res))"
    by (simp add: lg mismatch_logs_def)
  have c4: "differs crl (lrs_l_state lrs = OPAL_LK) \<longrightarrow>
            (LOG_DBG, Msg_read_lock_is seg (the crl)) \<in> set (logs (snd res))"
    by (simp add: lg mismatch_logs_def rd)
  have c5: "lrs_l_state lrs \<in> {OPAL_RO, OPAL_RW, OPAL_LK} \<longrightarrow>
            differs cwl (lrs_l_state lrs = OPAL_LK \<or> lrs_l_state lrs = OPAL_RO) \<longrightarrow>
            (LOG_DBG, Msg_write_lock_is seg (the cwl)) \<in> set (logs (snd res))"
  proof (intro impI)
    assume "lrs_l_state lrs \<in> {OPAL_RO, OPAL_RW, OPAL_LK}"
      and d: "differs cwl (lrs_l_state lrs = OPAL_LK \<or> lrs_l_state lrs = OPAL_RO)"
    then have "differs cwl (write_locked lrs)"
      using write_locked_states [of lrs] by simp
    then show "(LOG_DBG, Msg_write_lock_is seg (the cwl)) \<in> set (logs (snd res))"
      by (simp add: lg mismatch_logs_def)
  qed
  from c1 c2 c3 c4 c5 lg rv rd wr show ?thesis
    by (intro conjI)
qed


theorem range_check_attributes_checks_witness:
  "k_ioctl (sim_drive 7 512 (\<lambda>c. 0))
     (calls (sys0\<lparr>calls := [(IOC_OPAL_LOCK_UNLOCK, P_lock_unlock ((unlock_block 1 [] 0)\<lparr>l_state := OPAL_RO\<rparr>))]\<rparr>))
     (IOC_OPAL_GET_GEOMETRY, P_geometry) = OPAL_STATUS_SUCCESS \<and>
   k_alloc (sim_drive 7 512 (\<lambda>c. 0)) 0 \<and>
   lrs_l_state (k_lr_status (sim_drive 7 512 (\<lambda>c. 0))
     [(IOC_OPAL_LOCK_UNLOCK, P_lock_unlock ((unlock_block 1 [] 0)\<lparr>l_state := OPAL_RO\<rparr>)),
      (IOC_OPAL_GET_GEOMETRY, P_geometry)] (status_block 1 [1, 2])) \<in> {OPAL_RO, OPAL_RW, OPAL_LK} \<and>
   fst (opal_range_check_attributes_fd (sim_drive 7 512 (\<lambda>c. 0)) 1 [1, 2]
          (Some 8) (Some 0) (Some True) (Some True)
          (sys0\<lparr>calls := [(IOC_OPAL_LOCK_UNLOCK, P_lock_unlock ((unlock_block 1 [] 0)\<lparr>l_state := OPAL_RO\<rparr>))]\<rparr>))
     = - EINVAL \<and>
   logs (snd (opal_range_check_attributes_fd (sim_drive 7 512 (\<lambda>c. 0)) 1 [1, 2]
          (Some 8) (Some 0) (Some True) (Some True)
          (sys0\<lparr>calls := [(IOC_OPAL_LOCK_UNLOCK, P_lock_unlock ((unlock_block 1 [] 0)\<lparr>l_state := OPAL_RO\<rparr>))]\<rparr>)))
     = [(LOG_ERR, Msg_offset_mismatch 1 0 8), (LOG_ERR, Msg_locking_disabled 1),
        (LOG_DBG, Msg_read_lock_is 1 True), (LOG_ERR, Msg_unexpected_lock_state 1)]"
proof -
  let ?e = "sim_drive 7 512 (\<lambda>c. 0)"
  let ?s = "sys0\<lparr>calls := [(IOC_OPAL_LOCK_UNLOCK, P_lock_unlock ((unlock_block 1 [] 0)\<lparr>l_state := OPAL_RO\<rparr>))]\<rparr>"
  have h1: "k_ioctl ?e (calls ?s) (IOC_OPAL_GET_GEOMETRY, P_geometry) = OPAL_STATUS_SUCCESS"
    by (simp add: sim_defs const_defs)
  have h2: "k_alloc ?e (length (pool ?s))"
    by (simp add: sim_defs)
  have h3: "k_ioctl ?e (calls ?s @ [(IOC_OPAL_GET_GEOMETRY, P_geometry)])
              (IOC_OPAL_GET_LR_STATUS, P_lr_status (status_block 1 [1, 2])) = OPAL_STATUS_SUCCESS"
    by (simp add: sim_defs const_defs)
  note T = range_check_attributes_checks [OF h1 h2 h3 refl refl refl,
      of "Some 8" "Some 0" "Some True" "Some True"]
  show ?thesis
    using h1 T
    by (simp add: sim_defs const_defs block_defs mismatch_logs_def differs_def range_offset_def
        range_length_def read_locked_def write_locked_def)
qed

subsection \<open>Segment reset\<close>

lemma reset_segment_calls:
  assumes "length pw \<le> OPAL_KEY_MAX" and "opal_enabled e s = (en, s1)" and "0 < en"
    and "k_alloc e (length (pool s1))" and "k_alloc e (Suc (length (pool s1)))"
    and "0 \<le> device_open e s1"
  shows "calls (snd (opal_reset_segment e seg pw s)) =
           calls s1 @ (IOC_OPAL_ERASE_LR, P_session (admin_session seg pw)) #
             (if k_ioctl e (calls s1) (IOC_OPAL_ERASE_LR, P_session (admin_session seg pw))
                   = OPAL_STATUS_SUCCESS
              then []
              else (IOC_OPAL_SECURE_ERASE_LR, P_session (admin_session seg pw)) #
                (if k_ioctl e (calls s1 @ [(IOC_OPAL_ERASE_LR, P_session (admin_session seg pw))])
                      (IOC_OPAL_SECURE_ERASE_LR, P_session (admin_session seg pw))
                      = OPAL_STATUS_SUCCESS
                 then [(IOC_OPAL_LR_SETUP, P_lr_setup (disable_block seg pw))]
                 else []))"
  using assms
  by (simp add: opal_reset_segment_def step_defs admin_session_def disable_block_def
      device_open_def reset_out_def crypt_safe_free_calls)

text \<open>
  C6: \<^verbatim>\<open>opal_reset_segment\<close> returns \<open>-EINVAL\<close> when locking is not enabled. Otherwise,
  the password being within the maximum, the buffers served and the device open, it
  erases the range as Admin1, issues the secure erase only when the erase failed, and
  issues one configure-range call with start 0 and length 0 only after a secure erase
  that succeeded.
\<close>

theorem reset_segment_sequence:
  assumes "opal_enabled e s = (en, s1)"
  shows "(en \<le> 0 \<longrightarrow>
            fst (opal_reset_segment e seg pw s) = - EINVAL
            \<and> (snd (opal_reset_segment e seg pw s) = s \<or> snd (opal_reset_segment e seg pw s) = s1))
       \<and> (0 < en \<and> length pw \<le> OPAL_KEY_MAX \<and> k_alloc e (length (pool s1))
            \<and> k_alloc e (Suc (length (pool s1))) \<and> 0 \<le> device_open e s1 \<longrightarrow>
           calls (snd (opal_reset_segment e seg pw s)) =
             calls s1 @ (IOC_OPAL_ERASE_LR, P_session (admin_session seg pw)) #
               (if k_ioctl e (calls s1) (IOC_OPAL_ERASE_LR, P_session (admin_session seg pw))
                     = OPAL_STATUS_SUCCESS
                then []
                else (IOC_OPAL_SECURE_ERASE_LR, P_session (admin_session seg pw)) #
                  (if k_ioctl e (calls s1 @ [(IOC_OPAL_ERASE_LR, P_session (admin_session seg pw))])
                        (IOC_OPAL_SECURE_ERASE_LR, P_session (admin_session seg pw))
                        = OPAL_STATUS_SUCCESS
                   then [(IOC_OPAL_LR_SETUP, P_lr_setup (disable_block seg pw))]
                   else [])))"
proof (intro conjI impI)
  assume "en \<le> 0"
  then show "fst (opal_reset_segment e seg pw s) = - EINVAL"
    using assms by (simp add: opal_reset_segment_def)
  show "snd (opal_reset_segment e seg pw s) = s \<or> snd (opal_reset_segment e seg pw s) = s1"
    using assms \<open>en \<le> 0\<close> by (simp add: opal_reset_segment_def)
next
  assume "0 < en \<and> length pw \<le> OPAL_KEY_MAX \<and> k_alloc e (length (pool s1))
            \<and> k_alloc e (Suc (length (pool s1))) \<and> 0 \<le> device_open e s1"
  then show "calls (snd (opal_reset_segment e seg pw s)) =
             calls s1 @ (IOC_OPAL_ERASE_LR, P_session (admin_session seg pw)) #
               (if k_ioctl e (calls s1) (IOC_OPAL_ERASE_LR, P_session (admin_session seg pw))
                     = OPAL_STATUS_SUCCESS
                then []
                else (IOC_OPAL_SECURE_ERASE_LR, P_session (admin_session seg pw)) #
                  (if k_ioctl e (calls s1 @ [(IOC_OPAL_ERASE_LR, P_session (admin_session seg pw))])
                        (IOC_OPAL_SECURE_ERASE_LR, P_session (admin_session seg pw))
                        = OPAL_STATUS_SUCCESS
                   then [(IOC_OPAL_LR_SETUP, P_lr_setup (disable_block seg pw))]
                   else []))"
    using reset_segment_calls [OF _ assms] by blast
qed

theorem reset_segment_sequence_witness:
  "opal_enabled (sim_drive 3 512 (\<lambda>c. 0)) sys0 = (0, sys0\<lparr>calls := [status_query]\<rparr>) \<and>
   fst (opal_reset_segment (sim_drive 3 512 (\<lambda>c. 0)) 1 [7, 7] sys0) = - EINVAL \<and>
   opal_enabled (sim_drive 7 512 (\<lambda>c. if c = IOC_OPAL_ERASE_LR then 1 else 0)) sys0
     = (1, sys0\<lparr>calls := [status_query]\<rparr>) \<and>
   calls (snd (opal_reset_segment (sim_drive 7 512 (\<lambda>c. if c = IOC_OPAL_ERASE_LR then 1 else 0))
                 1 [7, 7] sys0))
     = [status_query,
        (IOC_OPAL_ERASE_LR, P_session (admin_session 1 [7, 7])),
        (IOC_OPAL_SECURE_ERASE_LR, P_session (admin_session 1 [7, 7])),
        (IOC_OPAL_LR_SETUP, P_lr_setup (disable_block 1 [7, 7]))] \<and>
   calls (snd (opal_reset_segment (sim_drive 7 512 (\<lambda>c. 0)) 1 [7, 7] sys0))
     = [status_query, (IOC_OPAL_ERASE_LR, P_session (admin_session 1 [7, 7]))]"
proof -
  let ?s1 = "sys0\<lparr>calls := [status_query]\<rparr>"
  have en0: "opal_enabled (sim_drive 3 512 (\<lambda>c. 0)) sys0 = (0, ?s1)"
    by (simp add: opal_enabled_def opal_query_status_def ioctl_def Let_def sim_defs const_defs
        status_query_def)
  have en1: "opal_enabled (sim_drive 7 512 a) sys0 = (1, ?s1)"
    if "0 \<le> a IOC_OPAL_GET_STATUS" for a
    using that
    by (simp add: opal_enabled_def opal_query_status_def ioctl_def Let_def sim_defs const_defs
        status_query_def)
  have en1a: "opal_enabled (sim_drive 7 512 (\<lambda>c. if c = IOC_OPAL_ERASE_LR then 1 else 0)) sys0
                = (1, ?s1)"
    by (rule en1) simp
  have en1b: "opal_enabled (sim_drive 7 512 (\<lambda>c. 0)) sys0 = (1, ?s1)"
    by (rule en1) simp
  have r0: "fst (opal_reset_segment (sim_drive 3 512 (\<lambda>c. 0)) 1 [7, 7] sys0) = - EINVAL"
    using reset_segment_sequence [OF en0, of 1 "[7, 7]"] by simp
  have r1: "calls (snd (opal_reset_segment (sim_drive 7 512 (\<lambda>c. if c = IOC_OPAL_ERASE_LR then 1 else 0))
                 1 [7, 7] sys0))
     = [status_query,
        (IOC_OPAL_ERASE_LR, P_session (admin_session 1 [7, 7])),
        (IOC_OPAL_SECURE_ERASE_LR, P_session (admin_session 1 [7, 7])),
        (IOC_OPAL_LR_SETUP, P_lr_setup (disable_block 1 [7, 7]))]"
    using reset_segment_sequence [OF en1a, of 1 "[7, 7]"]
    by (simp add: sim_defs const_defs)
  have r2: "calls (snd (opal_reset_segment (sim_drive 7 512 (\<lambda>c. 0)) 1 [7, 7] sys0))
     = [status_query, (IOC_OPAL_ERASE_LR, P_session (admin_session 1 [7, 7]))]"
    using reset_segment_sequence [OF en1b, of 1 "[7, 7]"]
    by (simp add: sim_defs const_defs)
  show ?thesis
    using en0 en1a r0 r1 r2 by simp
qed

subsection \<open>Ownership and provisioning\<close>

lemma setup_out_calls: "calls (setup_out l s) = calls s"
  by (simp add: setup_out_def crypt_safe_free_calls)

lemma grows_after:
  assumes "\<And>l s. prefix (calls s) (calls (snd (snd (rest l s))))"
    and "prefix (calls s) (calls s')"
  shows "prefix (calls s) (calls (snd (snd (rest l' s'))))"
  using assms(2) assms(1) [of s' l'] by (rule prefix_order.trans)

lemma check_fd_grows:
  "prefix (calls s) (calls (snd (opal_range_check_attributes_fd e seg vk co cl crl cwl s)))"
  by (simp add: opal_range_check_attributes_fd_def opal_geometry_fd_def step_defs
      crypt_safe_free_calls range_checks_calls)

lemma double_check_grows:
  "prefix (calls s) (calls (snd (snd (double_check e vk rs rl seg l s))))"
  by (simp add: double_check_def split_beta check_fd_grows)

lemma activate_user_grows:
  assumes "\<And>l s. prefix (calls s) (calls (snd (snd (rest l s))))"
  shows "prefix (calls s) (calls (snd (snd (activate_user e seg ak rest l s))))"
  apply (simp add: activate_user_def step_defs)
  apply (intro impI grows_after [OF assms])
  apply simp
  done

lemma add_user_to_lr_grows:
  assumes "\<And>l s. prefix (calls s) (calls (snd (snd (rest l s))))"
  shows "prefix (calls s) (calls (snd (snd (add_user_to_lr e seg ak rest l s))))"
  apply (simp add: add_user_to_lr_def step_defs)
  apply (intro impI grows_after [OF assms])
  apply simp
  done

lemma set_user_pw_grows:
  assumes "\<And>l s. prefix (calls s) (calls (snd (snd (rest l s))))"
  shows "prefix (calls s) (calls (snd (snd (set_user_pw e vk seg ak rest l s))))"
  apply (simp add: set_user_pw_def step_defs)
  apply (intro impI grows_after [OF assms])
  apply simp
  done

lemma setup_lr_grows:
  assumes "\<And>l s. prefix (calls s) (calls (snd (snd (rest l s))))"
  shows "prefix (calls s) (calls (snd (snd (setup_lr e rs rl seg ak rest l s))))"
  apply (simp add: setup_lr_def step_defs)
  apply (intro impI grows_after [OF assms])
  apply simp
  done

lemma lock_range_grows:
  assumes "\<And>l s. prefix (calls s) (calls (snd (snd (rest l s))))"
  shows "prefix (calls s) (calls (snd (snd (lock_range e vk seg rest l s))))"
  apply (simp add: lock_range_def step_defs)
  apply (intro impI grows_after [OF assms])
  apply simp
  done

lemma provision_grows:
  "prefix (calls s) (calls (snd (snd (provision e vk rs rl seg ak l s))))"
  unfolding provision_def
  by (intro activate_user_grows add_user_to_lr_grows set_user_pw_grows setup_lr_grows
      lock_range_grows double_check_grows)

lemma take_ownership_first:
  assumes "\<And>l s. prefix (calls s) (calls (snd (snd (rest l s))))"
  shows "calls (snd (snd (take_ownership e ak rest l s))) = calls s \<or>
         prefix (calls s @ [ownership_call ak]) (calls (snd (snd (take_ownership e ak rest l s))))"
proof -
  have after: "prefix (calls s @ [c]) (calls (snd (snd (rest l' s'))))"
    if "prefix (calls s @ [c]) (calls s')" for l' s' c
    using that assms [of s' l'] by (rule prefix_order.trans)
  show ?thesis
    apply (simp add: take_ownership_def step_defs ownership_call_def)
    apply (intro impI disjI2 after)
    apply simp
    done
qed

lemma take_ownership_denied:
  assumes "k_alloc e (length (pool s))"
    and "k_ioctl e (calls s) (ownership_call ak) = OPAL_STATUS_NOT_AUTHORIZED"
  shows "fst (take_ownership e ak rest l s) = - EPERM"
    and "calls (snd (snd (take_ownership e ak rest l s))) = calls s @ [ownership_call ak]"
  using assms
  by (simp_all add: take_ownership_def step_defs ownership_call_def OPAL_STATUS_NOT_AUTHORIZED_def)

lemma setup_ranges_never_enabled:
  assumes "length vk \<le> OPAL_KEY_MAX" and "length ak \<le> OPAL_KEY_MAX"
    and "0 \<le> device_open e s" and "opal_enabled e s = (0, s1)"
  shows "opal_setup_ranges e vk rs rl seg ak s =
           (Returns (fst (take_ownership e ak (provision e vk rs rl seg ak) no_locals s1)),
            setup_out (fst (snd (take_ownership e ak (provision e vk rs rl seg ak) no_locals s1)))
              (snd (snd (take_ownership e ak (provision e vk rs rl seg ak) no_locals s1))))"
  using assms by (simp add: opal_setup_ranges_def split_beta)

text \<open>
  C2: on a drive where locking was never enabled, the first control call after the
  status query, if any is issued, is take-ownership; when take-ownership is answered
  with the not-authorized status, \<^verbatim>\<open>opal_setup_ranges\<close> returns \<open>-EPERM\<close> and no further
  control call is issued.
\<close>

theorem setup_ranges_ownership_first:
  assumes "length vk \<le> OPAL_KEY_MAX" and "length ak \<le> OPAL_KEY_MAX"
    and "0 \<le> device_open e s" and "opal_enabled e s = (0, s1)"
  shows "calls s1 = calls s @ [status_query]
       \<and> (calls (snd (opal_setup_ranges e vk rs rl seg ak s)) = calls s1
           \<or> (\<exists>ys. calls (snd (opal_setup_ranges e vk rs rl seg ak s))
                     = calls s1 @ ownership_call ak # ys))
       \<and> (k_alloc e (length (pool s1))
            \<and> k_ioctl e (calls s1) (ownership_call ak) = OPAL_STATUS_NOT_AUTHORIZED \<longrightarrow>
           fst (opal_setup_ranges e vk rs rl seg ak s) = Returns (- EPERM)
           \<and> calls (snd (opal_setup_ranges e vk rs rl seg ak s)) = calls s1 @ [ownership_call ak])"
proof (intro conjI impI)
  note run = setup_ranges_never_enabled [OF assms, of rs rl seg]
  show "calls s1 = calls s @ [status_query]"
    using assms(3,4)
    by (auto simp: opal_enabled_def opal_query_status_def ioctl_def Let_def status_query_def)
  show "calls (snd (opal_setup_ranges e vk rs rl seg ak s)) = calls s1
           \<or> (\<exists>ys. calls (snd (opal_setup_ranges e vk rs rl seg ak s))
                     = calls s1 @ ownership_call ak # ys)"
    using take_ownership_first [where rest = "provision e vk rs rl seg ak" and s = s1
        and e = e and ak = ak and l = no_locals, OF provision_grows]
    by (auto simp: run setup_out_calls prefix_def)
  {
    assume "k_alloc e (length (pool s1))
            \<and> k_ioctl e (calls s1) (ownership_call ak) = OPAL_STATUS_NOT_AUTHORIZED"
    then have a: "k_alloc e (length (pool s1))"
      and d: "k_ioctl e (calls s1) (ownership_call ak) = OPAL_STATUS_NOT_AUTHORIZED"
      by simp_all
    show "fst (opal_setup_ranges e vk rs rl seg ak s) = Returns (- EPERM)"
      by (simp add: run take_ownership_denied [OF a d])
    show "calls (snd (opal_setup_ranges e vk rs rl seg ak s)) = calls s1 @ [ownership_call ak]"
      by (simp add: run setup_out_calls take_ownership_denied [OF a d])
  }
qed


theorem setup_ranges_ownership_first_witness:
  "length [1, 2 :: u8] \<le> OPAL_KEY_MAX \<and> length [3, 4 :: u8] \<le> OPAL_KEY_MAX \<and>
   0 \<le> device_open (sim_drive 3 512 denied_ownership) sys0 \<and>
   opal_enabled (sim_drive 3 512 denied_ownership) sys0 = (0, sys0\<lparr>calls := [status_query]\<rparr>) \<and>
   k_ioctl (sim_drive 3 512 denied_ownership) [status_query] (ownership_call [3, 4])
     = OPAL_STATUS_NOT_AUTHORIZED \<and>
   fst (opal_setup_ranges (sim_drive 3 512 denied_ownership) [1, 2] 8 16 1 [3, 4] sys0)
     = Returns (- EPERM) \<and>
   calls (snd (opal_setup_ranges (sim_drive 3 512 denied_ownership) [1, 2] 8 16 1 [3, 4] sys0))
     = [status_query, ownership_call [3, 4]]"
proof -
  let ?e = "sim_drive 3 512 denied_ownership"
  let ?s1 = "sys0\<lparr>calls := [status_query]\<rparr>"
  have h1: "length [1, 2 :: u8] \<le> OPAL_KEY_MAX" and h2: "length [3, 4 :: u8] \<le> OPAL_KEY_MAX"
    by (simp_all add: OPAL_KEY_MAX_def)
  have h3: "0 \<le> device_open ?e sys0"
    by (simp add: sim_defs)
  have h4: "opal_enabled ?e sys0 = (0, ?s1)"
    by (simp add: opal_enabled_def opal_query_status_def ioctl_def Let_def sim_defs const_defs
        status_query_def denied_ownership_def)
  have h5: "k_alloc ?e (length (pool ?s1))"
    by (simp add: sim_defs)
  have h6: "k_ioctl ?e (calls ?s1) (ownership_call [3, 4]) = OPAL_STATUS_NOT_AUTHORIZED"
    by (simp add: sim_defs const_defs denied_ownership_def ownership_call_def)
  show ?thesis
    using h1 h2 h3 h4 h5 h6 setup_ranges_ownership_first [OF h1 h2 h3 h4, of 8 16 1]
    by (simp add: sys0_def)
qed

subsection \<open>Oversized keys\<close>

text \<open>
  C4 as stated fails: a volume key longer than the maximum is not rejected with
  \<open>-EINVAL\<close>, neither by \<^verbatim>\<open>opal_setup_ranges\<close> nor by \<^verbatim>\<open>opal_unlock\<close>.
\<close>

theorem oversized_volume_key_counterexample:
  "OPAL_KEY_MAX < length long_key \<and>
   fst (opal_setup_ranges (sim_drive 3 512 ok_answers) long_key 8 16 1 [3, 4] sys0)
     \<noteq> Returns (- EINVAL) \<and>
   fst (opal_unlock (sim_drive 3 512 ok_answers) 1 long_key sys0) \<noteq> Returns (- EINVAL)"
  by (simp add: opal_setup_ranges_def opal_unlock_def opal_lock_unlock_def opal_supported_def
      opal_query_status_def ioctl_def Let_def sim_defs const_defs long_key_def ok_answers_def)

lemma unlock_oversized:
  assumes "OPAL_KEY_MAX < length vk"
  shows "fst (opal_unlock e seg vk s) \<in> {Assert_failed, Returns (- ENOTSUP), Returns (- EIO)}"
    and "calls (snd (opal_unlock e seg vk s)) = calls s
         \<or> calls (snd (opal_unlock e seg vk s)) = calls s @ [status_query]"
proof -
  show "fst (opal_unlock e seg vk s) \<in> {Assert_failed, Returns (- ENOTSUP), Returns (- EIO)}"
    using assms by (simp add: opal_unlock_def opal_lock_unlock_def Let_def split_beta)
  show "calls (snd (opal_unlock e seg vk s)) = calls s
         \<or> calls (snd (opal_unlock e seg vk s)) = calls s @ [status_query]"
    using assms query_status_calls [of e "OPAL_FL_SUPPORTED OR OPAL_FL_LOCKING_SUPPORTED" s]
    by (simp add: opal_unlock_def opal_lock_unlock_def opal_supported_def Let_def split_beta
        leave_def)
qed

text \<open>
  C4 as amended: an admin key or a password longer than the maximum is rejected with
  \<open>-EINVAL\<close> by \<^verbatim>\<open>opal_setup_ranges\<close>, \<^verbatim>\<open>opal_factory_reset\<close> and \<^verbatim>\<open>opal_reset_segment\<close>
  before any control call. The length of the volume key is asserted, not checked: with a
  longer volume key \<^verbatim>\<open>opal_setup_ranges\<close> stops at the assertion before any control call,
  and \<^verbatim>\<open>opal_unlock\<close> stops at the assertion, or returns \<open>-ENOTSUP\<close> or \<open>-EIO\<close>, having
  issued at most the status query.
\<close>

theorem oversized_key_handling:
  "(OPAL_KEY_MAX < length ak \<and> length vk \<le> OPAL_KEY_MAX \<longrightarrow>
      opal_setup_ranges e vk rs rl seg ak s = (Returns (- EINVAL), s))
   \<and> (OPAL_KEY_MAX < length pw \<longrightarrow>
        fst (opal_factory_reset e pw s) = - EINVAL
        \<and> calls (snd (opal_factory_reset e pw s)) = calls s)
   \<and> (OPAL_KEY_MAX < length pw \<longrightarrow> opal_reset_segment e seg pw s = (- EINVAL, s))
   \<and> (OPAL_KEY_MAX < length vk \<longrightarrow>
        opal_setup_ranges e vk rs rl seg ak s = (Assert_failed, s))
   \<and> (OPAL_KEY_MAX < length vk \<longrightarrow>
        fst (opal_unlock e seg vk s) \<in> {Assert_failed, Returns (- ENOTSUP), Returns (- EIO)}
        \<and> (calls (snd (opal_unlock e seg vk s)) = calls s
            \<or> calls (snd (opal_unlock e seg vk s)) = calls s @ [status_query]))"
proof -
  have a: "OPAL_KEY_MAX < length ak \<and> length vk \<le> OPAL_KEY_MAX \<longrightarrow>
      opal_setup_ranges e vk rs rl seg ak s = (Returns (- EINVAL), s)"
    by (simp add: opal_setup_ranges_def)
  have b: "OPAL_KEY_MAX < length pw \<longrightarrow>
        fst (opal_factory_reset e pw s) = - EINVAL
        \<and> calls (snd (opal_factory_reset e pw s)) = calls s"
    by (simp add: opal_factory_reset_def leave_def Let_def)
  have c: "OPAL_KEY_MAX < length pw \<longrightarrow> opal_reset_segment e seg pw s = (- EINVAL, s)"
    by (simp add: opal_reset_segment_def)
  have d: "OPAL_KEY_MAX < length vk \<longrightarrow>
        opal_setup_ranges e vk rs rl seg ak s = (Assert_failed, s)"
    by (simp add: opal_setup_ranges_def)
  have f: "OPAL_KEY_MAX < length vk \<longrightarrow>
        fst (opal_unlock e seg vk s) \<in> {Assert_failed, Returns (- ENOTSUP), Returns (- EIO)}
        \<and> (calls (snd (opal_unlock e seg vk s)) = calls s
            \<or> calls (snd (opal_unlock e seg vk s)) = calls s @ [status_query])"
    using unlock_oversized [of vk e seg s] by blast
  from a b c d f show ?thesis
    by (intro conjI)
qed

theorem oversized_key_handling_witness:
  "OPAL_KEY_MAX < length long_key \<and> length [1, 2 :: u8] \<le> OPAL_KEY_MAX \<and>
   opal_setup_ranges (sim_drive 7 512 ok_answers) [1, 2] 8 16 1 long_key sys0
     = (Returns (- EINVAL), sys0) \<and>
   fst (opal_factory_reset (sim_drive 7 512 ok_answers) long_key sys0) = - EINVAL \<and>
   calls (snd (opal_factory_reset (sim_drive 7 512 ok_answers) long_key sys0)) = [] \<and>
   opal_reset_segment (sim_drive 7 512 ok_answers) 1 long_key sys0 = (- EINVAL, sys0) \<and>
   opal_setup_ranges (sim_drive 7 512 ok_answers) long_key 8 16 1 [3, 4] sys0
     = (Assert_failed, sys0) \<and>
   fst (opal_unlock (sim_drive 7 512 ok_answers) 1 long_key sys0) = Assert_failed \<and>
   calls (snd (opal_unlock (sim_drive 7 512 ok_answers) 1 long_key sys0)) = [status_query]"
proof -
  have h1: "OPAL_KEY_MAX < length long_key" and h2: "length [1, 2 :: u8] \<le> OPAL_KEY_MAX"
    by (simp_all add: OPAL_KEY_MAX_def long_key_def)
  have u1: "fst (opal_unlock (sim_drive 7 512 ok_answers) 1 long_key sys0) = Assert_failed"
    and u2: "calls (snd (opal_unlock (sim_drive 7 512 ok_answers) 1 long_key sys0)) = [status_query]"
    using h1
    by (simp_all add: opal_unlock_def opal_lock_unlock_def opal_supported_def
        opal_query_status_def ioctl_def Let_def sim_defs const_defs ok_answers_def
        status_query_def)
  show ?thesis
    using h1 h2 u1 u2
      oversized_key_handling [of long_key "[1, 2]" "sim_drive 7 512 ok_answers" 8 16 1 sys0 long_key]
      oversized_key_handling [of "[3, 4]" long_key "sim_drive 7 512 ok_answers" 8 16 1 sys0 long_key]
    by (simp add: sys0_def)
qed

subsection \<open>Sector and block units\<close>

text \<open>
  C1: \<^verbatim>\<open>opal_setup_ranges\<close> is claimed to configure start and length converted from
  sectors to the drive's blocks, so that the verifier, which converts the drive's values
  to sectors, finds them equal to what was requested. The code passes both values as
  they are. On a drive with 4096-byte blocks that keeps what it is told, a range of 16
  sectors at sector 8 is configured as start 8 and length 16, the double check reads
  them back as 64 and 128 sectors, and the operation, as a later check with the same
  offset and length, returns \<open>-EINVAL\<close>; with 512-byte blocks it returns 0.
\<close>

theorem setup_ranges_block_units_mismatch:
  "fst (opal_setup_ranges (sim_drive 3 4096 ok_answers) [1, 2] 8 16 1 [3, 4] sys0)
     = Returns (- EINVAL)
   \<and> (IOC_OPAL_LR_SETUP,
        P_lr_setup \<lparr>su_range_start = 8, su_range_length = 16, su_RLE = 1, su_WLE = 1,
                    su_session = admin_session 1 [3, 4]\<rparr>)
       \<in> set (calls (snd (opal_setup_ranges (sim_drive 3 4096 ok_answers) [1, 2] 8 16 1 [3, 4] sys0)))
   \<and> logs (snd (opal_setup_ranges (sim_drive 3 4096 ok_answers) [1, 2] 8 16 1 [3, 4] sys0))
       = [(LOG_DBG, Msg_user_key_length 2), (LOG_ERR, Msg_offset_mismatch 1 64 8),
          (LOG_ERR, Msg_length_mismatch 1 128 16)]
   \<and> fst (opal_range_check_attributes (sim_drive 3 4096 ok_answers) 1 [1, 2] (Some 8) (Some 16)
            None None
            (snd (opal_setup_ranges (sim_drive 3 4096 ok_answers) [1, 2] 8 16 1 [3, 4] sys0)))
       = - EINVAL
   \<and> fst (opal_setup_ranges (sim_drive 3 512 ok_answers) [1, 2] 8 16 1 [3, 4] sys0) = Returns 0"
proof -
  have a: "fst (opal_setup_ranges (sim_drive 3 4096 ok_answers) [1, 2] 8 16 1 [3, 4] sys0)
     = Returns (- EINVAL)"
    by (simp add: run_defs ok_answers_def)
  have b: "(IOC_OPAL_LR_SETUP,
        P_lr_setup \<lparr>su_range_start = 8, su_range_length = 16, su_RLE = 1, su_WLE = 1,
                    su_session = admin_session 1 [3, 4]\<rparr>)
       \<in> set (calls (snd (opal_setup_ranges (sim_drive 3 4096 ok_answers) [1, 2] 8 16 1 [3, 4] sys0)))"
    by (simp add: run_defs ok_answers_def)
  have c: "logs (snd (opal_setup_ranges (sim_drive 3 4096 ok_answers) [1, 2] 8 16 1 [3, 4] sys0))
       = [(LOG_DBG, Msg_user_key_length 2), (LOG_ERR, Msg_offset_mismatch 1 64 8),
          (LOG_ERR, Msg_length_mismatch 1 128 16)]"
    by (simp add: run_defs ok_answers_def)
  have d: "fst (opal_range_check_attributes (sim_drive 3 4096 ok_answers) 1 [1, 2] (Some 8) (Some 16)
            None None
            (snd (opal_setup_ranges (sim_drive 3 4096 ok_answers) [1, 2] 8 16 1 [3, 4] sys0)))
       = - EINVAL"
    by (simp add: run_defs ok_answers_def)
  have f: "fst (opal_setup_ranges (sim_drive 3 512 ok_answers) [1, 2] 8 16 1 [3, 4] sys0) = Returns 0"
    by (simp add: run_defs ok_answers_def)
  from a b c d f show ?thesis
    by (intro conjI)
qed

subsection \<open>Release of key buffers\<close>

text \<open>
  C9: every key buffer held by an operation is claimed to be zeroed and released on
  every exit path. When locking is already enabled, \<^verbatim>\<open>opal_setup_ranges\<close> allocates
  \<^verbatim>\<open>user_session\<close> for the erase and allocates it again for the user activation without
  releasing the first buffer: on a drive where every call succeeds the operation returns
  0 and the first buffer, holding the admin key, is still live.
\<close>

theorem setup_ranges_leaves_admin_key:
  "fst (opal_setup_ranges (sim_drive 7 512 ok_answers) [1, 2] 8 16 1 [3, 4] sys0) = Returns 0
   \<and> pool (snd (opal_setup_ranges (sim_drive 7 512 ok_answers) [1, 2] 8 16 1 [3, 4] sys0))
       = [Live (P_session (admin_session 1 [3, 4])), Released, Released, Released, Released,
          Released, Released]"
proof -
  have a: "fst (opal_setup_ranges (sim_drive 7 512 ok_answers) [1, 2] 8 16 1 [3, 4] sys0) = Returns 0"
    by (simp add: run_defs ok_answers_def)
  have b: "pool (snd (opal_setup_ranges (sim_drive 7 512 ok_answers) [1, 2] 8 16 1 [3, 4] sys0))
       = [Live (P_session (admin_session 1 [3, 4])), Released, Released, Released, Released,
          Released, Released]"
    by (simp add: run_defs ok_answers_def)
  from a b show ?thesis
    by (intro conjI)
qed

end
